theory Spec2Isabelle
  imports Main
begin

section \<open>JavaScript values\<close>

text \<open>
  The webhook body is whatever \<^verbatim>\<open>express.json()\<close> parsed, so the program works on
  arbitrary JSON values. A number is an integer here, of magnitude at most \<open>2 ^ 53\<close> (JSON
  numbers with a fraction or an exponent are left out), \<open>JNaN\<close> is the number NaN, which
  only the platform's conversions produce, a string is the list of its UTF-16
  code units (code units below 256 only, one \<open>char\<close> each), an object is the list of its own
  properties in enumeration order (keys distinct, as \<^verbatim>\<open>JSON.parse\<close> builds them), and
  \<open>JBuiltin f\<close> is the built-in function \<open>f\<close> that a property read can find on a
  prototype.
\<close>

datatype error = TypeError

datatype jsval =
    JUndefined
  | JNull
  | JBool bool
  | JNum int
  | JNaN
  | JStr string
  | JArr "jsval list"
  | JObj "(string \<times> jsval) list"
  | JBuiltin string

text \<open>A raised exception is \<open>Inl\<close>; \<open>bnd\<close> sequences two computations that may raise.\<close>

definition bnd :: "error + 'a \<Rightarrow> ('a \<Rightarrow> error + 'b) \<Rightarrow> error + 'b" where
  "bnd m f = (case m of Inl e \<Rightarrow> Inl e | Inr x \<Rightarrow> f x)"

text \<open>Truthiness, as \<^verbatim>\<open>!v\<close>, \<^verbatim>\<open>a || b\<close>, \<^verbatim>\<open>a && b\<close> and \<^verbatim>\<open>c ? x : y\<close> test it.\<close>

fun truthy :: "jsval \<Rightarrow> bool" where
  "truthy JUndefined = False"
| "truthy JNull = False"
| "truthy (JBool b) = b"
| "truthy (JNum n) = (n \<noteq> 0)"
| "truthy JNaN = False"
| "truthy (JStr s) = (s \<noteq> [])"
| "truthy (JArr xs) = True"
| "truthy (JObj kvs) = True"
| "truthy (JBuiltin f) = True"

text \<open>\<^verbatim>\<open>a || b\<close> on values.\<close>

definition orElse :: "jsval \<Rightarrow> jsval \<Rightarrow> jsval" where
  "orElse a b = (if truthy a then a else b)"

fun nullish :: "jsval \<Rightarrow> bool" where
  "nullish JUndefined = True"
| "nullish JNull = True"
| "nullish v = False"

text \<open>
  The value of the property \<open>k\<close> of a value that is neither null nor undefined. Of the
  property names the program reads, none is a property of \<^verbatim>\<open>Object.prototype\<close>,
  \<^verbatim>\<open>String.prototype\<close>, \<^verbatim>\<open>Number.prototype\<close> or \<^verbatim>\<open>Boolean.prototype\<close>, and only
  \<^verbatim>\<open>values\<close> is one of \<^verbatim>\<open>Array.prototype\<close>; \<open>propOf\<close> is meant for those names and
  for \<^verbatim>\<open>length\<close>.
\<close>

fun propOf :: "jsval \<Rightarrow> string \<Rightarrow> jsval" where
  "propOf (JObj kvs) k = (case map_of kvs k of Some v \<Rightarrow> v | None \<Rightarrow> JUndefined)"
| "propOf (JArr xs) k =
     (if k = ''length'' then JNum (int (length xs))
      else if k = ''values'' then JBuiltin ''values''
      else JUndefined)"
| "propOf (JStr s) k = (if k = ''length'' then JNum (int (length s)) else JUndefined)"
| "propOf (JBuiltin f) k =
     (if k = ''name'' then JStr f else if k = ''length'' then JNum 0 else JUndefined)"
| "propOf v k = JUndefined"

text \<open>\<^verbatim>\<open>v.k\<close>: a TypeError on null and undefined.\<close>

definition getProp :: "jsval \<Rightarrow> string \<Rightarrow> error + jsval" where
  "getProp v k = (if nullish v then Inl TypeError else Inr (propOf v k))"

text \<open>\<^verbatim>\<open>v?.k\<close>: undefined on null and undefined.\<close>

definition optProp :: "jsval \<Rightarrow> string \<Rightarrow> jsval" where
  "optProp v k = (if nullish v then JUndefined else propOf v k)"

text \<open>\<^verbatim>\<open>v[0]\<close>.\<close>

fun index0 :: "jsval \<Rightarrow> error + jsval" where
  "index0 JUndefined = Inl TypeError"
| "index0 JNull = Inl TypeError"
| "index0 (JArr xs) = Inr (case xs of [] \<Rightarrow> JUndefined | x # _ \<Rightarrow> x)"
| "index0 (JStr s) = Inr (case s of [] \<Rightarrow> JUndefined | c # _ \<Rightarrow> JStr [c])"
| "index0 (JObj kvs) = Inr (case map_of kvs ''0'' of Some v \<Rightarrow> v | None \<Rightarrow> JUndefined)"
| "index0 v = Inr JUndefined"

section \<open>Strings\<close>

definition digit_char :: "nat \<Rightarrow> char" where
  "digit_char n = ''0123456789'' ! (n mod 10)"

fun digits :: "nat \<Rightarrow> string" where
  "digits n = (if n < 10 then [digit_char n] else digits (n div 10) @ [digit_char n])"

text \<open>\<^verbatim>\<open>Number.prototype.toString\<close> on an integer.\<close>

definition int_toString :: "int \<Rightarrow> string" where
  "int_toString i = (if i < 0 then CHR ''-'' # digits (nat (- i)) else digits (nat i))"

text \<open>
  \<^verbatim>\<open>String.prototype.toLowerCase\<close> on code units below 256: the letters A to Z and the
  Latin-1 capitals (192 to 222 but 215) move up by 32.
\<close>

definition toLowerChar :: "char \<Rightarrow> char" where
  "toLowerChar c =
     (let n = (of_char c :: nat) in
      if (65 \<le> n \<and> n \<le> 90) \<or> (192 \<le> n \<and> n \<le> 214) \<or> (216 \<le> n \<and> n \<le> 222)
      then char_of (n + 32) else c)"

definition toLowerCase :: "string \<Rightarrow> string" where
  "toLowerCase s = map toLowerChar s"

text \<open>
  \<^verbatim>\<open>String.prototype.trim\<close>: the white space and line terminators below 256 are
  tab, line feed, vertical tab, form feed, carriage return, space and no-break space.
\<close>

definition isWhiteSpace :: "char \<Rightarrow> bool" where
  "isWhiteSpace c = ((of_char c :: nat) \<in> set [9, 10, 11, 12, 13, 32, 160])"

definition trim :: "string \<Rightarrow> string" where
  "trim s = rev (dropWhile isWhiteSpace (rev (dropWhile isWhiteSpace s)))"

fun intercalate :: "string \<Rightarrow> string list \<Rightarrow> string" where
  "intercalate sep [] = []"
| "intercalate sep [x] = x"
| "intercalate sep (x # y # ys) = x @ sep @ intercalate sep (y # ys)"

text \<open>
  The abstract operation ToString, which template literals, \<^verbatim>\<open>Array.prototype.join\<close> and
  \<^verbatim>\<open>encodeURIComponent\<close> apply. An array is joined with commas, null and undefined
  elements giving the empty string. A parsed object has no callable property of its own:
  if it has an own property \<^verbatim>\<open>toString\<close> the conversion raises a TypeError (the
  inherited \<^verbatim>\<open>valueOf\<close> returns the object itself), otherwise the inherited method
  returns \<^verbatim>\<open>[object Object]\<close>.
\<close>

fun ToString :: "jsval \<Rightarrow> error + string"
  and joinElems :: "jsval list \<Rightarrow> error + string list" where
  "ToString JUndefined = Inr ''undefined''"
| "ToString JNull = Inr ''null''"
| "ToString (JBool b) = Inr (if b then ''true'' else ''false'')"
| "ToString (JNum n) = Inr (int_toString n)"
| "ToString JNaN = Inr ''NaN''"
| "ToString (JStr s) = Inr s"
| "ToString (JArr xs) = bnd (joinElems xs) (\<lambda>ss. Inr (intercalate '','' ss))"
| "ToString (JObj kvs) =
     (if map_of kvs ''toString'' \<noteq> None then Inl TypeError else Inr ''[object Object]'')"
| "ToString (JBuiltin f) = Inr (''function '' @ f @ ''() { [native code] }'')"
| "joinElems [] = Inr []"
| "joinElems (x # xs) =
     bnd (if nullish x then Inr [] else ToString x) (\<lambda>s.
     bnd (joinElems xs) (\<lambda>ss. Inr (s # ss)))"

text \<open>The method call \<^verbatim>\<open>v.toString()\<close>: the property read fails on null and undefined.\<close>

definition toString_call :: "jsval \<Rightarrow> error + string" where
  "toString_call v = (if nullish v then Inl TypeError else ToString v)"

section \<open>Severity mapper (\<^verbatim>\<open>mapSeverity\<close>, app.js)\<close>

definition mapSeverity :: "jsval \<Rightarrow> jsval \<Rightarrow> string \<Rightarrow> error + string" where
  "mapSeverity severity status source =
     (if \<not> truthy severity \<and> \<not> truthy status then Inr ''info''
      else
        bnd (toString_call (orElse (orElse severity status) (JStr ''''))) (\<lambda>str.
        let severityStr = toLowerCase str in
        if severityStr \<in> set [''critical'', ''warning'', ''info''] then Inr severityStr
        else if source = ''grafana'' \<or> source = ''prometheus'' then
          (if severityStr = ''firing'' then Inr ''warning''
           else if severityStr = ''resolved'' then Inr ''info''
           else if severityStr = ''pending'' then Inr ''info''
           else Inr ''warning'')
        else if source = ''zabbix'' then
          (if severityStr = ''5'' \<or> severityStr = ''disaster'' then Inr ''critical''
           else if severityStr = ''4'' \<or> severityStr = ''high'' then Inr ''critical''
           else if severityStr = ''3'' \<or> severityStr = ''average'' then Inr ''warning''
           else if severityStr = ''2'' \<or> severityStr = ''warning'' then Inr ''warning''
           else if severityStr = ''1'' \<or> severityStr = ''information'' then Inr ''info''
           else if severityStr = ''0'' \<or> severityStr = ''not_classified'' then Inr ''info''
           else Inr ''warning'')
        else if severityStr \<in> set [''error'', ''fatal'', ''emergency'', ''alert'', ''high'', ''urgent'']
          then Inr ''critical''
        else if severityStr \<in> set [''warn'', ''warning'', ''medium'', ''moderate'']
          then Inr ''warning''
        else if severityStr \<in> set [''info'', ''information'', ''notice'', ''low'', ''debug'', ''trace'']
          then Inr ''info''
        else Inr ''info''))"

section \<open>Payload validation (\<^verbatim>\<open>validateAlertPayload\<close>)\<close>

datatype validation = Valid | Invalid string

fun isString :: "jsval \<Rightarrow> bool" where
  "isString (JStr s) = True"
| "isString v = False"

text \<open>The loop over the required fields: the first field that is falsy or not a string.\<close>

fun checkRequired :: "jsval \<Rightarrow> string list \<Rightarrow> error + string option" where
  "checkRequired payload [] = Inr None"
| "checkRequired payload (field # rest) =
     bnd (getProp payload field) (\<lambda>v.
       if \<not> truthy v \<or> \<not> isString v then Inr (Some field)
       else checkRequired payload rest)"

text \<open>\<^verbatim>\<open>list.includes(v)\<close> for a list of strings.\<close>

fun includesStr :: "string list \<Rightarrow> jsval \<Rightarrow> bool" where
  "includesStr xs (JStr s) = (s \<in> set xs)"
| "includesStr xs v = False"

text \<open>
  \<^verbatim>\<open>v.length > n\<close> for a value that passed the loop, a string: its length is a number.
\<close>

fun lengthExceeds :: "jsval \<Rightarrow> int \<Rightarrow> bool" where
  "lengthExceeds v n = (case propOf v ''length'' of JNum k \<Rightarrow> k > n | _ \<Rightarrow> False)"

definition validSeverities :: "string list" where
  "validSeverities = [''critical'', ''warning'', ''info'']"

definition validateAlertPayload :: "jsval \<Rightarrow> error + validation" where
  "validateAlertPayload payload =
     bnd (checkRequired payload [''title'', ''source'', ''severity'', ''message'']) (\<lambda>missing.
       case missing of
         Some field \<Rightarrow> Inr (Invalid (''Missing or invalid field: '' @ field))
       | None \<Rightarrow>
           if \<not> includesStr validSeverities (propOf payload ''severity'') then
             Inr (Invalid (''Invalid severity. Must be one of: ''
               @ intercalate '', '' validSeverities))
           else if lengthExceeds (propOf payload ''title'') 200 then
             Inr (Invalid ''Title too long (max 200 characters)'')
           else if lengthExceeds (propOf payload ''message'') 2000 then
             Inr (Invalid ''Message too long (max 2000 characters)'')
           else Inr Valid)"

section \<open>Webhook transformation (app.js)\<close>

text \<open>
  What the program takes from its platform: the clock (\<^verbatim>\<open>Date.now()\<close>, in
  milliseconds), the parsing of a string as a date (\<^verbatim>\<open>Date.parse\<close>) and as a number
  (the string case of ToNumber), and the rounding of an integer beyond \<open>2 ^ 53\<close> to the
  nearest floating-point number. The last three compute with floating-point numbers and are
  left as parameters; none of them raises.
\<close>

record env =
  dateNow :: int
  dateParse :: "string \<Rightarrow> jsval"
  stringToNumber :: "string \<Rightarrow> jsval"
  nearestDouble :: "int \<Rightarrow> jsval"

text \<open>A time value beyond 8.64e15 milliseconds is NaN (TimeClip).\<close>

definition timeClip :: "int \<Rightarrow> jsval" where
  "timeClip n = (if \<bar>n\<bar> \<le> 8640000000000000 then JNum n else JNaN)"

text \<open>
  \<^verbatim>\<open>new Date(v).getTime()\<close>: a string is parsed, another primitive is converted to a
  number, and an object is converted to a primitive first, which gives the string of
  \<open>ToString\<close> or raises as \<open>ToString\<close> does.
\<close>

fun dateGetTime :: "env \<Rightarrow> jsval \<Rightarrow> error + jsval" where
  "dateGetTime env (JStr s) = Inr (dateParse env s)"
| "dateGetTime env (JNum n) = Inr (timeClip n)"
| "dateGetTime env (JBool b) = Inr (JNum (if b then 1 else 0))"
| "dateGetTime env JNull = Inr (JNum 0)"
| "dateGetTime env JUndefined = Inr JNaN"
| "dateGetTime env JNaN = Inr JNaN"
| "dateGetTime env v = bnd (ToString v) (\<lambda>s. Inr (dateParse env s))"

text \<open>The abstract operation ToNumber, which \<^verbatim>\<open>*\<close> applies to its operands.\<close>

fun toNumber :: "env \<Rightarrow> jsval \<Rightarrow> error + jsval" where
  "toNumber env (JNum n) = Inr (JNum n)"
| "toNumber env JNaN = Inr JNaN"
| "toNumber env (JStr s) = Inr (stringToNumber env s)"
| "toNumber env (JBool b) = Inr (JNum (if b then 1 else 0))"
| "toNumber env JNull = Inr (JNum 0)"
| "toNumber env JUndefined = Inr JNaN"
| "toNumber env v = bnd (ToString v) (\<lambda>s. Inr (stringToNumber env s))"

fun mapE :: "('a \<Rightarrow> error + 'b) \<Rightarrow> 'a list \<Rightarrow> error + 'b list" where
  "mapE f [] = Inr []"
| "mapE f (x # xs) = bnd (f x) (\<lambda>y. bnd (mapE f xs) (\<lambda>ys. Inr (y # ys)))"

text \<open>
  \<^verbatim>\<open>Object.entries(v)\<close>: the own enumerable properties; the indices of an array or a
  string; nothing for a number, a boolean or a function.
\<close>

fun objectEntries :: "jsval \<Rightarrow> error + (string \<times> jsval) list" where
  "objectEntries JUndefined = Inl TypeError"
| "objectEntries JNull = Inl TypeError"
| "objectEntries (JObj kvs) = Inr kvs"
| "objectEntries (JArr xs) = Inr (zip (map digits [0..<length xs]) xs)"
| "objectEntries (JStr s) = Inr (zip (map digits [0..<length s]) (map (\<lambda>c. JStr [c]) s))"
| "objectEntries v = Inr []"

definition hexDigit :: "nat \<Rightarrow> char" where
  "hexDigit n = ''0123456789ABCDEF'' ! (n mod 16)"

definition percentByte :: "nat \<Rightarrow> string" where
  "percentByte b = [CHR ''%'', hexDigit (b div 16), hexDigit b]"

definition uriUnreserved :: "char \<Rightarrow> bool" where
  "uriUnreserved c =
     (c \<in> set (''ABCDEFGHIJKLMNOPQRSTUVWXYZabcdefghijklmnopqrstuvwxyz0123456789''
        @ ''-_.!~*()'' @ [CHR 0x27]))"

text \<open>A code unit below 128 is one UTF-8 byte, one from 128 to 255 is two.\<close>

definition encodeChar :: "char \<Rightarrow> string" where
  "encodeChar c =
     (let n = (of_char c :: nat) in
      if uriUnreserved c then [c]
      else if n < 128 then percentByte n
      else percentByte (192 + n div 64) @ percentByte (128 + n mod 64))"

definition encodeURIComponent :: "jsval \<Rightarrow> error + string" where
  "encodeURIComponent v = bnd (ToString v) (\<lambda>s. Inr (concat (map encodeChar s)))"

text \<open>
  In the transformations a property read is \<open>getProp\<close> where the receiver may be null or
  undefined, and \<open>propOf\<close> where an earlier read of the same receiver has succeeded. The
  result is the object literal the function returns.
\<close>

definition grafanaMatcher :: "string \<times> jsval \<Rightarrow> error + string" where
  "grafanaMatcher kv =
     bnd (encodeURIComponent (JStr (fst kv))) (\<lambda>k.
     bnd (encodeURIComponent (snd kv)) (\<lambda>v.
     Inr (''matcher='' @ k @ ''%3D'' @ v)))"

definition transformGrafanaWebhook :: "env \<Rightarrow> jsval \<Rightarrow> error + jsval" where
  "transformGrafanaWebhook env payload =
     bnd (getProp payload ''alerts'') (\<lambda>alerts.
     bnd (index0 alerts) (\<lambda>firstAlert.
     bnd (getProp firstAlert ''labels'') (\<lambda>labels.
     let status = propOf payload ''status'';
         annotations = propOf firstAlert ''annotations'';
         externalURL = propOf payload ''externalURL'';
         startsAt = propOf firstAlert ''startsAt''
     in
     bnd (if truthy labels \<and> truthy externalURL then
            bnd (objectEntries labels) (\<lambda>es.
            bnd (mapE grafanaMatcher es) (\<lambda>ms.
            bnd (ToString externalURL) (\<lambda>base.
            Inr [(''silence'', JStr (base @ ''/alerting/silence/new?alertmanager=grafana&''
                    @ intercalate ''&'' ms))])))
          else Inr []) (\<lambda>silence.
     bnd (mapSeverity (optProp labels ''severity'') status ''grafana'') (\<lambda>severity.
     bnd (if truthy (optProp annotations ''description'') then Inr (optProp annotations ''description'')
          else if truthy (optProp annotations ''summary'') then Inr (optProp annotations ''summary'')
          else bnd (ToString (optProp labels ''alertname'')) (\<lambda>s. Inr (JStr (''Alert: '' @ s))))
       (\<lambda>message.
     bnd (if truthy startsAt then dateGetTime env startsAt else Inr (JNum (dateNow env)))
       (\<lambda>timestamp.
     Inr (JObj
       [(''title'',
           orElse (optProp annotations ''summary'')
             (orElse (optProp (propOf payload ''commonAnnotations'') ''summary'')
               (orElse (optProp labels ''alertname'') (JStr ''Grafana Alert'')))),
        (''source'',
           orElse (optProp labels ''instance'')
             (orElse (optProp labels ''job'')
               (orElse (propOf payload ''receiver'') (JStr ''Grafana'')))),
        (''severity'', JStr severity),
        (''message'', message),
        (''timestamp'', timestamp),
        (''metadata'', JObj
           [(''status'', orElse status (JStr ''firing'')),
            (''labels'', orElse labels (JObj [])),
            (''annotations'', orElse annotations (JObj [])),
            (''values'', orElse (propOf firstAlert ''values'') (JObj [])),
            (''urls'', JObj ((if truthy externalURL then [(''source'', externalURL)] else [])
                @ silence))])]))))))))"

definition transformPrometheusWebhook :: "env \<Rightarrow> jsval \<Rightarrow> error + jsval" where
  "transformPrometheusWebhook env payload =
     bnd (getProp payload ''alerts'') (\<lambda>alerts.
     bnd (index0 alerts) (\<lambda>firstAlert.
     bnd (getProp firstAlert ''labels'') (\<lambda>labels.
     let status = propOf payload ''status'';
         annotations = propOf firstAlert ''annotations'';
         externalURL = propOf payload ''externalURL'';
         startsAt = propOf firstAlert ''startsAt''
     in
     bnd (mapSeverity (optProp labels ''severity'') status ''prometheus'') (\<lambda>severity.
     bnd (if truthy startsAt then dateGetTime env startsAt else Inr (JNum (dateNow env)))
       (\<lambda>timestamp.
     Inr (JObj
       [(''title'',
           orElse (optProp annotations ''summary'')
             (orElse (optProp labels ''alertname'') (JStr ''Prometheus Alert''))),
        (''source'',
           orElse (optProp labels ''instance'')
             (orElse (optProp labels ''job'') (JStr ''Prometheus''))),
        (''severity'', JStr severity),
        (''message'',
           orElse (optProp annotations ''description'')
             (orElse (optProp annotations ''summary'') (JStr ''Prometheus alert triggered''))),
        (''timestamp'', timestamp),
        (''metadata'', JObj
           [(''status'', orElse status (orElse (propOf firstAlert ''status'') (JStr ''firing''))),
            (''labels'', orElse labels (JObj [])),
            (''annotations'', orElse annotations (JObj [])),
            (''values'', orElse (propOf firstAlert ''values'') (JObj [])),
            (''urls'', JObj (if truthy externalURL then [(''source'', externalURL)] else []))])]))))))"

text \<open>
  \<^verbatim>\<open>v * 1000\<close>: the product of two integers is exact up to \<open>2 ^ 53\<close> and rounded to the
  nearest floating-point number beyond; NaN stays NaN.
\<close>

definition times1000 :: "env \<Rightarrow> jsval \<Rightarrow> error + jsval" where
  "times1000 env v =
     bnd (toNumber env v) (\<lambda>n.
       case n of
         JNum k \<Rightarrow>
           Inr (if \<bar>k * 1000\<bar> \<le> 2 ^ 53 then JNum (k * 1000) else nearestDouble env (k * 1000))
       | _ \<Rightarrow> Inr JNaN)"

definition transformZabbixWebhook :: "env \<Rightarrow> jsval \<Rightarrow> error + jsval" where
  "transformZabbixWebhook env payload =
     bnd (getProp payload ''event'') (\<lambda>event.
     let trigger = propOf payload ''trigger'';
         host = propOf payload ''host''
     in
     bnd (getProp trigger ''name'') (\<lambda>triggerName.
     bnd (mapSeverity (optProp trigger ''priority'') (optProp event ''value'') ''zabbix'')
       (\<lambda>severity.
     bnd (if truthy (optProp event ''clock'') then times1000 env (propOf event ''clock'')
          else Inr (JNum (dateNow env))) (\<lambda>timestamp.
     Inr (JObj
       [(''title'',
           orElse triggerName (orElse (optProp event ''name'') (JStr ''Zabbix Alert''))),
        (''source'',
           orElse (optProp host ''name'') (orElse (optProp trigger ''host'') (JStr ''Zabbix''))),
        (''severity'', JStr severity),
        (''message'',
           orElse (optProp trigger ''description'')
             (orElse (optProp event ''description'') (JStr ''Zabbix trigger activated''))),
        (''timestamp'', timestamp),
        (''metadata'', JObj
           [(''status'',
               JStr (if optProp event ''value'' = JStr ''1'' then ''Problem'' else ''OK'')),
            (''labels'', JObj
               [(''trigger'', optProp trigger ''name''),
                (''host'', optProp host ''name''),
                (''priority'', optProp trigger ''priority'')]),
            (''annotations'', JObj [(''description'', optProp trigger ''description'')]),
            (''values'', JObj []),
            (''urls'', JObj (if truthy (optProp trigger ''url'')
                then [(''source'', propOf trigger ''url'')] else []))])])))))"

definition reservedKeys :: "string list" where
  "reservedKeys =
     [''title'', ''source'', ''severity'', ''message'', ''timestamp'', ''status'', ''level'',
      ''priority'']"

text \<open>
  The keys copied into \<^verbatim>\<open>metadata.labels\<close>. An assignment to the key
  \<^verbatim>\<open>__proto__\<close> sets the prototype and creates no own property.
\<close>

definition genericLabels :: "(string \<times> jsval) list \<Rightarrow> (string \<times> jsval) list" where
  "genericLabels es =
     filter (\<lambda>kv. fst kv \<notin> set reservedKeys \<and> fst kv \<noteq> ''__proto__'') es"

definition transformGenericWebhook :: "env \<Rightarrow> jsval \<Rightarrow> error + jsval" where
  "transformGenericWebhook env payload =
     bnd (getProp payload ''status'') (\<lambda>status.
     bnd (objectEntries payload) (\<lambda>es.
     let level = propOf payload ''level'';
         ts = propOf payload ''timestamp''
     in
     bnd (mapSeverity
            (orElse (propOf payload ''severity'') (orElse level (propOf payload ''priority'')))
            status ''generic'') (\<lambda>severity.
     bnd (if truthy ts then dateGetTime env ts else Inr (JNum (dateNow env))) (\<lambda>timestamp.
     Inr (JObj
       [(''title'',
           orElse (propOf payload ''title'')
             (orElse (propOf payload ''subject'')
               (orElse (propOf payload ''alert'') (JStr ''Generic Alert'')))),
        (''source'',
           orElse (propOf payload ''source'')
             (orElse (propOf payload ''service'')
               (orElse (propOf payload ''host'') (JStr ''Webhook'')))),
        (''severity'', JStr severity),
        (''message'',
           orElse (propOf payload ''message'')
             (orElse (propOf payload ''description'') (JStr ''Alert received''))),
        (''timestamp'', timestamp),
        (''metadata'', JObj
           [(''status'', orElse status (orElse level (JStr ''active''))),
            (''labels'', JObj (genericLabels es)),
            (''annotations'', JObj []),
            (''values'', JObj []),
            (''urls'', JObj [])])])))))"

section \<open>Format detection (\<^verbatim>\<open>detectAndTransformWebhook\<close>)\<close>

fun isArray :: "jsval \<Rightarrow> bool" where
  "isArray (JArr xs) = True"
| "isArray v = False"

text \<open>The five conditions of \<^verbatim>\<open>detectAndTransformWebhook\<close>, in its order.\<close>

definition nativeFields :: "jsval \<Rightarrow> bool" where
  "nativeFields payload =
     (truthy (propOf payload ''title'') \<and> truthy (propOf payload ''source'')
      \<and> truthy (propOf payload ''severity'') \<and> truthy (propOf payload ''message''))"

definition grafanaShape :: "jsval \<Rightarrow> bool" where
  "grafanaShape payload =
     (truthy (propOf payload ''alerts'') \<and> isArray (propOf payload ''alerts'')
      \<and> truthy (propOf payload ''receiver''))"

definition prometheusShape :: "jsval \<Rightarrow> bool" where
  "prometheusShape payload =
     (truthy (propOf payload ''alerts'') \<and> isArray (propOf payload ''alerts'')
      \<and> truthy (propOf payload ''groupKey''))"

definition zabbixShape :: "jsval \<Rightarrow> bool" where
  "zabbixShape payload =
     (truthy (propOf payload ''trigger'')
      \<and> (truthy (propOf payload ''event'') \<or> truthy (propOf payload ''problem'')))"

definition genericShape :: "jsval \<Rightarrow> bool" where
  "genericShape payload =
     (truthy (propOf payload ''message'')
      \<and> (truthy (propOf payload ''status'') \<or> truthy (propOf payload ''level'')
         \<or> truthy (propOf payload ''priority'')))"

text \<open>
  The result is the transformed object, or \<open>JNull\<close> for \<^verbatim>\<open>return null\<close>. The first
  read of the payload fails on null and undefined; \<open>native\<close> says that the first
  \<^verbatim>\<open>if\<close> was entered and the validation inside it succeeded.
\<close>

definition detectAndTransformWebhook :: "env \<Rightarrow> jsval \<Rightarrow> error + jsval" where
  "detectAndTransformWebhook env payload =
     bnd (getProp payload ''title'') (\<lambda>title.
     bnd (if nativeFields payload
          then bnd (validateAlertPayload payload) (\<lambda>validation. Inr (validation = Valid))
          else Inr False) (\<lambda>native.
     if native then Inr JNull
     else if grafanaShape payload then transformGrafanaWebhook env payload
     else if prometheusShape payload then transformPrometheusWebhook env payload
     else if zabbixShape payload then transformZabbixWebhook env payload
     else if genericShape payload then transformGenericWebhook env payload
     else Inr JNull))"

section \<open>The handler of \<^verbatim>\<open>POST /api/alert\<close>, up to the alert it stores\<close>

text \<open>The method calls \<^verbatim>\<open>v.trim()\<close> and \<^verbatim>\<open>v.toLowerCase()\<close>: only a string has them.\<close>

fun trim_call :: "jsval \<Rightarrow> error + jsval" where
  "trim_call (JStr s) = Inr (JStr (trim s))"
| "trim_call v = Inl TypeError"

fun toLowerCase_call :: "jsval \<Rightarrow> error + jsval" where
  "toLowerCase_call (JStr s) = Inr (JStr (toLowerCase s))"
| "toLowerCase_call v = Inl TypeError"

text \<open>
  The handler answers 400 with the validation error, or goes on to store \<^verbatim>\<open>alertData\<close>;
  an exception is caught and answered with 500. Each of the two log lines before the alert
  is stored interpolates the title, the severity and the source into a template literal,
  which converts them with \<open>ToString\<close> and may raise.
\<close>

datatype alertRequest = BadRequest string | AlertData jsval

definition logLine :: "jsval \<Rightarrow> error + string" where
  "logLine a =
     bnd (ToString (propOf a ''title'')) (\<lambda>t.
     bnd (ToString (propOf a ''severity'')) (\<lambda>v.
     bnd (ToString (propOf a ''source'')) (\<lambda>s.
     Inr (t @ '' ('' @ v @ '') from '' @ s))))"

definition postAlert :: "env \<Rightarrow> jsval \<Rightarrow> error + alertRequest" where
  "postAlert env body =
     bnd (detectAndTransformWebhook env body) (\<lambda>transformed.
     if truthy transformed then
       bnd (logLine transformed) (\<lambda>line. Inr (AlertData transformed))
     else
       bnd (validateAlertPayload body) (\<lambda>validation.
       case validation of
         Invalid e \<Rightarrow> Inr (BadRequest e)
       | Valid \<Rightarrow>
           bnd (logLine body) (\<lambda>line.
           bnd (trim_call (propOf body ''title'')) (\<lambda>title.
           bnd (trim_call (propOf body ''source'')) (\<lambda>source.
           bnd (toLowerCase_call (propOf body ''severity'')) (\<lambda>severity.
           bnd (trim_call (propOf body ''message'')) (\<lambda>message.
           Inr (AlertData (JObj
             [(''title'', title),
              (''source'', source),
              (''severity'', severity),
              (''message'', message),
              (''timestamp'',
                 orElse (propOf body ''timestamp'') (JNum (dateNow env)))])))))))))"

section \<open>Alert repository (database.js)\<close>

text \<open>
  The table \<^verbatim>\<open>alerts\<close>: one record per row, a nullable column as an option, the two
  boolean columns as booleans (they are written as TRUE and FALSE only). The database is
  its rows in row order and the counter behind \<^verbatim>\<open>AUTOINCREMENT\<close>. Times are epoch
  seconds; \<open>now\<close> is the value of \<^verbatim>\<open>strftime('%s', 'now')\<close> when a statement runs.
  Failures of the storage engine itself are not modelled.
\<close>

record alert_row =
  alert_id :: int
  title :: string
  source :: string
  severity :: string
  message :: string
  timestamp :: int
  created_at :: int
  metadata :: "string option"
  telegram_message_id :: "int option"
  chat_id :: "int option"
  acknowledged :: bool
  acknowledged_by :: "string option"
  acknowledged_by_id :: "int option"
  acknowledged_by_name :: "string option"
  acknowledged_at :: "int option"
  resolved :: bool
  resolved_by :: "string option"
  resolved_by_id :: "int option"
  resolved_by_name :: "string option"
  resolved_at :: "int option"

record database =
  rows :: "alert_row list"
  lastId :: int

definition emptyDatabase :: database where
  "emptyDatabase = \<lparr>rows = [], lastId = 0\<rparr>"

text \<open>
  The acting user, as \<^verbatim>\<open>extractUserInfo\<close> builds it from the chat update: the numeric id
  is always there, the other fields may be undefined (bound as NULL).
\<close>

record userInfo =
  username :: "string option"
  userId :: int
  firstName :: "string option"
  lastName :: "string option"

text \<open>\<^verbatim>\<open>[firstName, lastName].filter(Boolean).join(' ')\<close>\<close>

definition fullName :: "userInfo \<Rightarrow> string" where
  "fullName u =
     intercalate '' ''
       (filter (\<lambda>s. s \<noteq> [])
          (concat (map (\<lambda>x. case x of None \<Rightarrow> [] | Some s \<Rightarrow> [s]) [firstName u, lastName u])))"

datatype db_error = ConstraintError

text \<open>
  \<^verbatim>\<open>createAlert\<close>, with the fields of \<^verbatim>\<open>alertData\<close> given as the column values the
  driver binds. The insert fails on the CHECK constraint of the severity column; the other
  columns take their defaults. The result is the database and \<^verbatim>\<open>this.lastID\<close>.
\<close>

definition createAlert ::
  "int \<Rightarrow> database \<Rightarrow> string \<Rightarrow> string \<Rightarrow> string \<Rightarrow> string \<Rightarrow> int \<Rightarrow> string option
    \<Rightarrow> db_error + database \<times> int" where
  "createAlert now db title' source' severity' message' timestamp' metadataJson =
     (if severity' \<notin> set [''critical'', ''warning'', ''info''] then Inl ConstraintError
      else
        let newId = lastId db + 1 in
        Inr (db\<lparr>rows := rows db @
               [\<lparr>alert_id = newId, title = title', source = source', severity = severity',
                 message = message', timestamp = timestamp', created_at = now,
                 metadata = metadataJson, telegram_message_id = None, chat_id = None,
                 acknowledged = False, acknowledged_by = None, acknowledged_by_id = None,
                 acknowledged_by_name = None, acknowledged_at = None,
                 resolved = False, resolved_by = None, resolved_by_id = None,
                 resolved_by_name = None, resolved_at = None\<rparr>],
               lastId := newId\<rparr>, newId))"

text \<open>
  An UPDATE statement: every row that satisfies the WHERE clause is rewritten, and
  \<^verbatim>\<open>this.changes\<close> is the number of such rows.
\<close>

definition sqlUpdate ::
  "(alert_row \<Rightarrow> bool) \<Rightarrow> (alert_row \<Rightarrow> alert_row) \<Rightarrow> database \<Rightarrow> database \<times> nat" where
  "sqlUpdate wh st db =
     (db\<lparr>rows := map (\<lambda>r. if wh r then st r else r) (rows db)\<rparr>,
      length (filter wh (rows db)))"

definition updateTelegramInfo :: "database \<Rightarrow> int \<Rightarrow> int \<Rightarrow> int \<Rightarrow> database \<times> nat" where
  "updateTelegramInfo db alertId telegramMessageId chatId =
     sqlUpdate (\<lambda>r. alert_id r = alertId)
       (\<lambda>r. r\<lparr>telegram_message_id := Some telegramMessageId, chat_id := Some chatId\<rparr>) db"

definition acknowledgeAlert :: "int \<Rightarrow> database \<Rightarrow> int \<Rightarrow> userInfo \<Rightarrow> database \<times> bool" where
  "acknowledgeAlert now db alertId u =
     (let (db', changes) =
        sqlUpdate (\<lambda>r. alert_id r = alertId \<and> acknowledged r = False)
          (\<lambda>r. r\<lparr>acknowledged := True,
                 acknowledged_by := username u,
                 acknowledged_by_id := Some (userId u),
                 acknowledged_by_name := Some (fullName u),
                 acknowledged_at := Some now\<rparr>) db
      in (db', changes > 0))"

definition resolveAlert :: "int \<Rightarrow> database \<Rightarrow> int \<Rightarrow> userInfo \<Rightarrow> database \<times> bool" where
  "resolveAlert now db alertId u =
     (let (db', changes) =
        sqlUpdate (\<lambda>r. alert_id r = alertId \<and> acknowledged r = True \<and> resolved r = False)
          (\<lambda>r. r\<lparr>resolved := True,
                 resolved_by := username u,
                 resolved_by_id := Some (userId u),
                 resolved_by_name := Some (fullName u),
                 resolved_at := Some now\<rparr>) db
      in (db', changes > 0))"

text \<open>\<^verbatim>\<open>getAlertById\<close>: the first row with that id (metadata left as stored).\<close>

definition getAlertById :: "database \<Rightarrow> int \<Rightarrow> alert_row option" where
  "getAlertById db alertId = find (\<lambda>r. alert_id r = alertId) (rows db)"

text \<open>
  The aggregates of SQL: \<^verbatim>\<open>COUNT(*)\<close> is the number of rows, \<^verbatim>\<open>SUM\<close> is NULL when
  there is no row to sum over.
\<close>

definition sqlCount :: "'a list \<Rightarrow> jsval" where
  "sqlCount xs = JNum (int (length xs))"

definition sqlSum :: "int list \<Rightarrow> jsval" where
  "sqlSum xs = (if xs = [] then JNull else JNum (sum_list xs))"

text \<open>\<^verbatim>\<open>SUM(CASE WHEN c THEN 1 ELSE 0 END)\<close>\<close>

definition sumCase :: "(alert_row \<Rightarrow> bool) \<Rightarrow> alert_row list \<Rightarrow> jsval" where
  "sumCase c xs = sqlSum (map (\<lambda>r. if c r then 1 else 0) xs)"

text \<open>\<^verbatim>\<open>getWeeklyReport\<close>: the row the query returns, as the object the driver builds.\<close>

definition getWeeklyReport :: "int \<Rightarrow> database \<Rightarrow> jsval" where
  "getWeeklyReport now db =
     (let window = filter (\<lambda>r. created_at r \<ge> now - 7 * 86400) (rows db) in
      JObj
        [(''total'', sqlCount window),
         (''acknowledged'', sumCase (\<lambda>r. acknowledged r = True) window),
         (''resolved'', sumCase (\<lambda>r. resolved r = True) window),
         (''unacknowledged'', sumCase (\<lambda>r. acknowledged r = False) window),
         (''critical'', sumCase (\<lambda>r. severity r = ''critical'') window),
         (''warning'', sumCase (\<lambda>r. severity r = ''warning'') window),
         (''info'', sumCase (\<lambda>r. severity r = ''info'') window)])"

text \<open>The statements that write to the table, and the states they reach from the empty one.\<close>

datatype statement =
    CreateAlert int string string string string int "string option"
  | UpdateTelegramInfo int int int
  | AcknowledgeAlert int int userInfo
  | ResolveAlert int int userInfo

fun execute :: "database \<Rightarrow> statement \<Rightarrow> database" where
  "execute db (CreateAlert now t s sev m ts md) =
     (case createAlert now db t s sev m ts md of Inl e \<Rightarrow> db | Inr (db', i) \<Rightarrow> db')"
| "execute db (UpdateTelegramInfo alertId mid cid) = fst (updateTelegramInfo db alertId mid cid)"
| "execute db (AcknowledgeAlert now alertId u) = fst (acknowledgeAlert now db alertId u)"
| "execute db (ResolveAlert now alertId u) = fst (resolveAlert now db alertId u)"

inductive reachable :: "database \<Rightarrow> bool" where
  reachable_empty: "reachable emptyDatabase"
| reachable_step: "reachable db \<Longrightarrow> reachable (execute db st)"

section \<open>Callback data (\<^verbatim>\<open>extractAlertIdFromCallback\<close>)\<close>

definition isDigit :: "char \<Rightarrow> bool" where
  "isDigit c = (c \<in> set ''0123456789'')"

text \<open>
  A match of \<^verbatim>\<open>/^prefix(\d+)$/\<close>: the whole string is the prefix and then one or more
  digits; the result is the captured group.
\<close>

definition matchPrefixDigits :: "string \<Rightarrow> string \<Rightarrow> string option" where
  "matchPrefixDigits pre s =
     (let rest = drop (length pre) s in
      if take (length pre) s = pre \<and> rest \<noteq> [] \<and> list_all isDigit rest then Some rest
      else None)"

definition digitValue :: "char \<Rightarrow> nat" where
  "digitValue c = of_char c - 48"

definition decimalValue :: "string \<Rightarrow> nat" where
  "decimalValue ds = foldl (\<lambda>acc c. 10 * acc + digitValue c) 0 ds"

text \<open>
  The number \<^verbatim>\<open>parseInt\<close> returns for a run of digits: the integer itself up to
  \<open>2 ^ 53\<close>, and above that the floating-point number nearest to it, which is not
  computed here.
\<close>

datatype parsedInt = Exact nat | Nearest nat

definition parseInt :: "string \<Rightarrow> parsedInt" where
  "parseInt ds =
     (let n = decimalValue ds in if n \<le> 2 ^ 53 then Exact n else Nearest n)"

datatype callbackResult = CallbackResult parsedInt string

definition extractAlertIdFromCallback :: "string \<Rightarrow> callbackResult option" where
  "extractAlertIdFromCallback callbackData =
     (case matchPrefixDigits ''ack_'' callbackData of
        Some g \<Rightarrow> Some (CallbackResult (parseInt g) ''acknowledge'')
      | None \<Rightarrow>
          (case matchPrefixDigits ''resolve_'' callbackData of
             Some g \<Rightarrow> Some (CallbackResult (parseInt g) ''resolve'')
           | None \<Rightarrow> None))"

section \<open>The specification's side of the statements\<close>

text \<open>
  The values the contract of the severity mapper allows for its two inputs, and a little
  more: absent (null or undefined), or a string, a number or a boolean.
\<close>

fun isPrimitive :: "jsval \<Rightarrow> bool" where
  "isPrimitive (JArr xs) = False"
| "isPrimitive (JObj kvs) = False"
| "isPrimitive (JBuiltin f) = False"
| "isPrimitive v = True"



text \<open>Two users and three states of the table, for the concrete instances below.\<close>

definition alice :: userInfo where
  "alice =
     \<lparr>username = Some ''alice'', userId = 11, firstName = Some ''Alice'', lastName = Some ''A''\<rparr>"

definition bob :: userInfo where
  "bob = \<lparr>username = None, userId = 22, firstName = Some ''Bob'', lastName = None\<rparr>"

definition exampleDb :: database where
  "exampleDb =
     execute emptyDatabase (CreateAlert 100 ''DB down'' ''svc'' ''critical'' ''timeout'' 5 None)"

definition ackedDb :: database where
  "ackedDb = execute exampleDb (AcknowledgeAlert 200 1 alice)"

definition resolvedDb :: database where
  "resolvedDb = execute ackedDb (ResolveAlert 300 1 bob)"

text \<open>A platform and five request bodies, for the concrete instances below.\<close>

definition exampleEnv :: env where
  "exampleEnv =
     \<lparr>dateNow = 1700000000000, dateParse = (\<lambda>s. JNaN), stringToNumber = (\<lambda>s. JNaN),
       nearestDouble = (\<lambda>n. JNaN)\<rparr>"

definition canonicalPayload :: jsval where
  "canonicalPayload =
     JObj [(''title'', JStr '' DB down ''), (''source'', JStr ''svc''),
           (''severity'', JStr ''critical''), (''message'', JStr ''timeout'')]"

definition longTitleGeneric :: jsval where
  "longTitleGeneric =
     JObj [(''title'', JStr (replicate 201 CHR ''a'')), (''source'', JStr ''svc''),
           (''severity'', JStr ''info''), (''message'', JStr ''disk full''),
           (''priority'', JNum 3)]"

definition longTitlePayload :: jsval where
  "longTitlePayload =
     JObj [(''title'', JStr (replicate 201 CHR ''a'')), (''source'', JStr ''svc''),
           (''severity'', JStr ''info''), (''message'', JStr ''disk full''),
           (''priority'', JNum 0)]"

definition emptyAlertsPayload :: jsval where
  "emptyAlertsPayload =
     JObj [(''alerts'', JArr []), (''receiver'', JStr ''team''),
           (''message'', JStr ''disk full''), (''status'', JStr ''firing'')]"

definition nullAlertPayload :: jsval where
  "nullAlertPayload = JObj [(''alerts'', JArr [JNull]), (''receiver'', JStr ''team'')]"

text \<open>
  The structural shapes as the specification words them: a field the payload has (whatever
  its value), an array that is not empty, a field that is an object.
\<close>

definition hasField :: "jsval \<Rightarrow> string \<Rightarrow> bool" where
  "hasField v k = (case v of JObj kvs \<Rightarrow> k \<in> set (map fst kvs) | _ \<Rightarrow> False)"

fun nonEmptyArray :: "jsval \<Rightarrow> bool" where
  "nonEmptyArray (JArr xs) = (xs \<noteq> [])"
| "nonEmptyArray v = False"

fun isObject :: "jsval \<Rightarrow> bool" where
  "isObject (JObj kvs) = True"
| "isObject v = False"

definition specGrafanaShaped :: "jsval \<Rightarrow> bool" where
  "specGrafanaShaped payload =
     (nonEmptyArray (propOf payload ''alerts'') \<and> hasField payload ''receiver'')"

definition specPrometheusShaped :: "jsval \<Rightarrow> bool" where
  "specPrometheusShaped payload =
     (nonEmptyArray (propOf payload ''alerts'') \<and> hasField payload ''groupKey'')"

definition specZabbixShaped :: "jsval \<Rightarrow> bool" where
  "specZabbixShaped payload =
     (isObject (propOf payload ''trigger'')
      \<and> (isObject (propOf payload ''event'') \<or> isObject (propOf payload ''problem'')))"

definition specGenericShaped :: "jsval \<Rightarrow> bool" where
  "specGenericShaped payload =
     (hasField payload ''message''
      \<and> (hasField payload ''status'' \<or> hasField payload ''level''
         \<or> hasField payload ''priority''))"

text \<open>Three more request bodies for the concrete instances below.\<close>

definition zabbixLookalikePayload :: jsval where
  "zabbixLookalikePayload =
     JObj [(''title'', JStr (replicate 201 CHR ''a'')), (''source'', JStr ''svc''),
           (''severity'', JStr ''info''), (''message'', JStr ''disk full''),
           (''status'', JStr ''firing''), (''trigger'', JStr ''disk''),
           (''problem'', JNum 1)]"

definition severityObjectPayload :: jsval where
  "severityObjectPayload =
     JObj [(''alerts'', JArr [JObj [(''labels'',
              JObj [(''alertname'', JStr ''HighCPU''),
                    (''severity'', JObj [(''toString'', JStr ''x'')])])]]),
           (''receiver'', JStr ''team'')]"

definition timestampObjectPayload :: jsval where
  "timestampObjectPayload =
     JObj [(''title'', JStr (replicate 201 CHR ''a'')), (''source'', JStr ''svc''),
           (''severity'', JStr ''info''), (''message'', JStr ''disk full''),
           (''priority'', JNum 3), (''timestamp'', JObj [(''toString'', JNum 1)])]"

section \<open>Properties of the severity mapper\<close>

lemma bnd_Inr [simp]: "bnd (Inr x) f = f x"
  by (simp add: bnd_def)

lemma bnd_Inl [simp]: "bnd (Inl e) f = Inl e"
  by (simp add: bnd_def)

lemma bnd_eq_Inr: "(bnd m f = Inr y) = (\<exists>x. m = Inr x \<and> f x = Inr y)"
  by (cases m) simp_all

lemma mapSeverity_of_string:
  assumes "toString_call (orElse (orElse sev stat) (JStr [])) = Inr str"
  shows "mapSeverity sev stat src \<in> {Inr ''critical'', Inr ''warning'', Inr ''info''}"
  using assms by (simp add: mapSeverity_def Let_def)

lemma toString_call_primitive:
  "isPrimitive v \<Longrightarrow> \<not> nullish v \<Longrightarrow> \<exists>s. toString_call v = Inr s"
  by (cases v) (simp_all add: toString_call_def)

lemma chosen_primitive:
  "isPrimitive sev \<Longrightarrow> isPrimitive stat \<Longrightarrow>
   isPrimitive (orElse (orElse sev stat) (JStr [])) \<and>
   \<not> nullish (orElse (orElse sev stat) (JStr []))"
  by (cases sev; cases stat) (simp_all add: orElse_def)

text \<open>
  Whenever each of the raw severity and the raw status is absent or a primitive value, the
  mapper raises nothing and returns critical, warning or info, for every source kind; with
  both absent it returns info.
\<close>

theorem mapSeverity_total:
  assumes "isPrimitive sev" and "isPrimitive stat"
  shows "mapSeverity sev stat src \<in> {Inr ''critical'', Inr ''warning'', Inr ''info''}
    \<and> (nullish sev \<and> nullish stat \<longrightarrow> mapSeverity sev stat src = Inr ''info'')"
proof -
  from assms obtain str
    where "toString_call (orElse (orElse sev stat) (JStr [])) = Inr str"
    using chosen_primitive toString_call_primitive by blast
  then have "mapSeverity sev stat src
      \<in> {Inr ''critical'', Inr ''warning'', Inr ''info''}"
    by (rule mapSeverity_of_string)
  moreover have "nullish sev \<and> nullish stat \<longrightarrow>
      mapSeverity sev stat src = Inr ''info''"
    by (cases sev; cases stat) (simp_all add: mapSeverity_def)
  ultimately show ?thesis by blast
qed

theorem mapSeverity_total_witness:
  "mapSeverity (JStr ''HIGH'') JNull ''zabbix'' \<in> {Inr ''critical'', Inr ''warning'', Inr ''info''}
   \<and> mapSeverity JNull JUndefined ''zabbix'' = Inr ''info''"
  using mapSeverity_total [of "JStr ''HIGH''" JNull "''zabbix''"]
    mapSeverity_total [of JNull JUndefined "''zabbix''"]
  by simp

text \<open>What the function computes once the chosen input is a non-empty string.\<close>

lemma mapSeverity_string:
  assumes "orElse sev stat = JStr s" and "s \<noteq> []"
  shows "mapSeverity sev stat src =
     (let severityStr = toLowerCase s in
        if severityStr \<in> set [''critical'', ''warning'', ''info''] then Inr severityStr
        else if src = ''grafana'' \<or> src = ''prometheus'' then
          (if severityStr = ''firing'' then Inr ''warning''
           else if severityStr = ''resolved'' then Inr ''info''
           else if severityStr = ''pending'' then Inr ''info''
           else Inr ''warning'')
        else if src = ''zabbix'' then
          (if severityStr = ''5'' \<or> severityStr = ''disaster'' then Inr ''critical''
           else if severityStr = ''4'' \<or> severityStr = ''high'' then Inr ''critical''
           else if severityStr = ''3'' \<or> severityStr = ''average'' then Inr ''warning''
           else if severityStr = ''2'' \<or> severityStr = ''warning'' then Inr ''warning''
           else if severityStr = ''1'' \<or> severityStr = ''information'' then Inr ''info''
           else if severityStr = ''0'' \<or> severityStr = ''not_classified'' then Inr ''info''
           else Inr ''warning'')
        else if severityStr \<in> set [''error'', ''fatal'', ''emergency'', ''alert'', ''high'', ''urgent'']
          then Inr ''critical''
        else if severityStr \<in> set [''warn'', ''warning'', ''medium'', ''moderate'']
          then Inr ''warning''
        else if severityStr \<in> set [''info'', ''information'', ''notice'', ''low'', ''debug'', ''trace'']
          then Inr ''info''
        else Inr ''info'')"
proof -
  have t: "truthy sev \<or> truthy stat"
    using assms by (auto simp: orElse_def split: if_splits)
  have c: "toString_call (orElse (orElse sev stat) (JStr [])) = Inr s"
    using assms by (simp add: orElse_def toString_call_def)
  show ?thesis
    using t unfolding mapSeverity_def c by auto
qed



text \<open>
  C7, as amended. The mapper lower-cases its chosen input (the raw severity, or else the raw
  status) and does not trim it: a string whose lower-cased form is exactly critical, warning
  or info is mapped to that form, for every source kind, whether it comes as the raw
  severity or, with a falsy raw severity, as the raw status.
\<close>

theorem mapSeverity_case_insensitive:
  assumes "toLowerCase s \<in> set [''critical'', ''warning'', ''info'']"
  shows "mapSeverity (JStr s) stat src = Inr (toLowerCase s)
    \<and> (\<not> truthy sev \<longrightarrow> mapSeverity sev (JStr s) src = Inr (toLowerCase s))"
proof -
  have ne: "s \<noteq> []"
    using assms by (auto simp: toLowerCase_def)
  have a: "orElse (JStr s) stat = JStr s"
    using ne by (simp add: orElse_def)
  have "mapSeverity (JStr s) stat src = Inr (toLowerCase s)"
    using assms unfolding mapSeverity_string [OF a ne] Let_def by simp
  moreover have "mapSeverity sev (JStr s) src = Inr (toLowerCase s)"
    if "\<not> truthy sev"
  proof -
    have b: "orElse sev (JStr s) = JStr s"
      using that by (simp add: orElse_def)
    show ?thesis
      using assms unfolding mapSeverity_string [OF b ne] Let_def by simp
  qed
  ultimately show ?thesis by blast
qed

theorem mapSeverity_case_insensitive_witness:
  "mapSeverity (JStr ''CRITICAL'') JNull ''zabbix'' = Inr ''critical''
   \<and> mapSeverity (JStr []) (JStr ''Warning'') ''grafana'' = Inr ''warning''"
proof -
  have a: "toLowerCase ''CRITICAL'' = ''critical''" by code_simp
  have b: "toLowerCase ''Warning'' = ''warning''" by code_simp
  show ?thesis
    using mapSeverity_case_insensitive [of "''CRITICAL''" JNull "''zabbix''" JNull, unfolded a]
      mapSeverity_case_insensitive [of "''Warning''" JNull "''grafana''" "JStr []", unfolded b]
    by simp
qed

text \<open>
  C7 as stated fails: the token ' critical ' differs from critical by surrounding white
  space only, and it is mapped to warning for grafana and to info for the generic kind.
\<close>

theorem mapSeverity_no_trim_counterexample:
  "trim '' critical '' = ''critical''
   \<and> mapSeverity (JStr '' critical '') JNull ''grafana'' = Inr ''warning''
   \<and> mapSeverity (JStr '' critical '') JNull ''generic'' = Inr ''info''"
  by code_simp

section \<open>Properties of the alert repository\<close>

lemma sqlUpdate_rows:
  "rows (fst (sqlUpdate wh st db)) = map (\<lambda>r. if wh r then st r else r) (rows db)"
  by (simp add: sqlUpdate_def)

lemma sqlUpdate_changes:
  "(snd (sqlUpdate wh st db) > 0) = (\<exists>r \<in> set (rows db). wh r)"
  by (auto simp: sqlUpdate_def filter_empty_conv)

lemma sqlUpdate_no_hit:
  assumes "\<forall>r \<in> set (rows db). \<not> wh r"
  shows "sqlUpdate wh st db = (db, 0)"
proof -
  have "map (\<lambda>r. if wh r then st r else r) (rows db) = rows db"
    using assms by (simp add: map_idI)
  moreover have "filter wh (rows db) = []"
    using assms by (simp add: filter_empty_conv)
  ultimately show ?thesis
    by (simp add: sqlUpdate_def)
qed

lemma map_if_all:
  assumes "\<And>r. wh r \<Longrightarrow> Q (st r)" and "\<And>r. \<not> wh r \<Longrightarrow> Q r"
  shows "list_all Q (map (\<lambda>r. if wh r then st r else r) xs)"
  using assms by (induction xs) simp_all

lemma find_id_map:
  assumes "\<And>r. alert_id (f r) = alert_id r"
  shows "find (\<lambda>r. alert_id r = i) (map f xs) = map_option f (find (\<lambda>r. alert_id r = i) xs)"
  using assms by (induction xs) simp_all

lemma getAlertById_mem:
  "getAlertById db alertId = Some r \<Longrightarrow> r \<in> set (rows db) \<and> alert_id r = alertId"
  by (auto simp: getAlertById_def find_Some_iff)

subsection \<open>Acknowledge\<close>

lemma acknowledgeAlert_result:
  "snd (acknowledgeAlert now db alertId u) =
     (\<exists>r \<in> set (rows db). alert_id r = alertId \<and> \<not> acknowledged r)"
  using sqlUpdate_changes [of "\<lambda>r. alert_id r = alertId \<and> acknowledged r = False"]
  by (simp add: acknowledgeAlert_def split_beta)

lemma acknowledgeAlert_rows:
  "rows (fst (acknowledgeAlert now db alertId u)) =
     map (\<lambda>r. if alert_id r = alertId \<and> \<not> acknowledged r
               then r\<lparr>acknowledged := True, acknowledged_by := username u,
                      acknowledged_by_id := Some (userId u),
                      acknowledged_by_name := Some (fullName u),
                      acknowledged_at := Some now\<rparr>
               else r) (rows db)"
  by (simp add: acknowledgeAlert_def split_beta sqlUpdate_rows)

lemma acknowledgeAlert_lastId:
  "lastId (fst (acknowledgeAlert now db alertId u)) = lastId db"
  by (simp add: acknowledgeAlert_def split_beta sqlUpdate_def)

lemma acknowledgeAlert_fail:
  assumes "\<not> snd (acknowledgeAlert now db alertId u)"
  shows "fst (acknowledgeAlert now db alertId u) = db"
proof -
  have "\<forall>r \<in> set (rows db). \<not> (alert_id r = alertId \<and> acknowledged r = False)"
    using assms by (simp add: acknowledgeAlert_result)
  then show ?thesis
    by (simp add: acknowledgeAlert_def sqlUpdate_no_hit)
qed

lemma acknowledgeAlert_twice:
  "acknowledgeAlert t2 (fst (acknowledgeAlert t1 db alertId a)) alertId b =
     (fst (acknowledgeAlert t1 db alertId a), False)"
proof -
  have "list_all (\<lambda>r. \<not> (alert_id r = alertId \<and> \<not> acknowledged r))
          (rows (fst (acknowledgeAlert t1 db alertId a)))"
    unfolding acknowledgeAlert_rows by (rule map_if_all) simp_all
  then have "\<not> (\<exists>r \<in> set (rows (fst (acknowledgeAlert t1 db alertId a))).
            alert_id r = alertId \<and> \<not> acknowledged r)"
    unfolding list_all_iff by blast
  then have n: "\<not> snd (acknowledgeAlert t2 (fst (acknowledgeAlert t1 db alertId a)) alertId b)"
    by (simp add: acknowledgeAlert_result)
  have "fst (acknowledgeAlert t2 (fst (acknowledgeAlert t1 db alertId a)) alertId b) =
      fst (acknowledgeAlert t1 db alertId a)"
    using n by (rule acknowledgeAlert_fail)
  with n show ?thesis
    by (simp add: prod_eq_iff)
qed

lemma acknowledgeAlert_getAlertById:
  assumes "getAlertById db alertId = Some r" and "\<not> acknowledged r"
  shows "getAlertById (fst (acknowledgeAlert now db alertId u)) alertId =
     Some (r\<lparr>acknowledged := True, acknowledged_by := username u,
             acknowledged_by_id := Some (userId u),
             acknowledged_by_name := Some (fullName u),
             acknowledged_at := Some now\<rparr>)"
proof -
  have i: "alert_id r = alertId"
    using assms(1) getAlertById_mem by simp
  have f: "find (\<lambda>r. alert_id r = alertId) (rows db) = Some r"
    using assms(1) by (simp add: getAlertById_def)
  show ?thesis
    unfolding getAlertById_def acknowledgeAlert_rows
    by (subst find_id_map) (simp_all add: f i assms(2))
qed

lemma acknowledgeAlert_succeeds:
  assumes "getAlertById db alertId = Some r" and "\<not> acknowledged r"
  shows "snd (acknowledgeAlert now db alertId u)"
  unfolding acknowledgeAlert_result using getAlertById_mem [OF assms(1)] assms(2) by blast

text \<open>
  C2. Acknowledge returns true exactly when a row with that id is unacknowledged; it rewrites
  exactly those rows, setting the flag, the three attribution fields of the actor and the
  time, and nothing else; when it returns false the database is unchanged. An
  unacknowledged alert found by its id is afterwards found acknowledged by the first actor,
  and a second acknowledge of the same id, by any actor at any time, returns false and
  leaves the database as the first call left it.
\<close>

theorem acknowledgeAlert_conditional_update:
  "snd (acknowledgeAlert now db alertId u) =
       (\<exists>r \<in> set (rows db). alert_id r = alertId \<and> \<not> acknowledged r)
   \<and> rows (fst (acknowledgeAlert now db alertId u)) =
       map (\<lambda>r. if alert_id r = alertId \<and> \<not> acknowledged r
                 then r\<lparr>acknowledged := True, acknowledged_by := username u,
                        acknowledged_by_id := Some (userId u),
                        acknowledged_by_name := Some (fullName u),
                        acknowledged_at := Some now\<rparr>
                 else r) (rows db)
   \<and> lastId (fst (acknowledgeAlert now db alertId u)) = lastId db
   \<and> (\<not> snd (acknowledgeAlert now db alertId u) \<longrightarrow> fst (acknowledgeAlert now db alertId u) = db)
   \<and> (getAlertById db alertId = Some r \<and> \<not> acknowledged r \<longrightarrow>
        snd (acknowledgeAlert now db alertId u)
        \<and> getAlertById (fst (acknowledgeAlert now db alertId u)) alertId =
            Some (r\<lparr>acknowledged := True, acknowledged_by := username u,
                    acknowledged_by_id := Some (userId u),
                    acknowledged_by_name := Some (fullName u),
                    acknowledged_at := Some now\<rparr>))
   \<and> acknowledgeAlert now' (fst (acknowledgeAlert now db alertId u)) alertId u' =
        (fst (acknowledgeAlert now db alertId u), False)"
proof (intro conjI impI)
  show "snd (acknowledgeAlert now db alertId u) =
       (\<exists>r \<in> set (rows db). alert_id r = alertId \<and> \<not> acknowledged r)"
    by (rule acknowledgeAlert_result)
  show "rows (fst (acknowledgeAlert now db alertId u)) =
       map (\<lambda>r. if alert_id r = alertId \<and> \<not> acknowledged r
                 then r\<lparr>acknowledged := True, acknowledged_by := username u,
                        acknowledged_by_id := Some (userId u),
                        acknowledged_by_name := Some (fullName u),
                        acknowledged_at := Some now\<rparr>
                 else r) (rows db)"
    by (rule acknowledgeAlert_rows)
  show "lastId (fst (acknowledgeAlert now db alertId u)) = lastId db"
    by (rule acknowledgeAlert_lastId)
  show "fst (acknowledgeAlert now db alertId u) = db"
    if "\<not> snd (acknowledgeAlert now db alertId u)"
    using that by (rule acknowledgeAlert_fail)
  show "snd (acknowledgeAlert now db alertId u)"
    if "getAlertById db alertId = Some r \<and> \<not> acknowledged r"
    using that acknowledgeAlert_succeeds by blast
  show "getAlertById (fst (acknowledgeAlert now db alertId u)) alertId =
            Some (r\<lparr>acknowledged := True, acknowledged_by := username u,
                    acknowledged_by_id := Some (userId u),
                    acknowledged_by_name := Some (fullName u),
                    acknowledged_at := Some now\<rparr>)"
    if "getAlertById db alertId = Some r \<and> \<not> acknowledged r"
    using that acknowledgeAlert_getAlertById by blast
  show "acknowledgeAlert now' (fst (acknowledgeAlert now db alertId u)) alertId u' =
        (fst (acknowledgeAlert now db alertId u), False)"
    by (rule acknowledgeAlert_twice)
qed

theorem acknowledgeAlert_conditional_update_witness:
  "snd (acknowledgeAlert 200 exampleDb 1 alice)
   \<and> map acknowledged_by (rows (fst (acknowledgeAlert 200 exampleDb 1 alice))) = [Some ''alice'']
   \<and> acknowledgeAlert 300 (fst (acknowledgeAlert 200 exampleDb 1 alice)) 1 bob =
       (fst (acknowledgeAlert 200 exampleDb 1 alice), False)
   \<and> fst (acknowledgeAlert 200 exampleDb 2 alice) = exampleDb"
proof -
  note c1 =
    acknowledgeAlert_conditional_update [of 200 exampleDb 1 alice "hd (rows exampleDb)" 300 bob]
  note c2 =
    acknowledgeAlert_conditional_update [of 200 exampleDb 2 alice "hd (rows exampleDb)" 300 bob]
  have g: "getAlertById exampleDb 1 = Some (hd (rows exampleDb))
      \<and> \<not> acknowledged (hd (rows exampleDb))"
    by code_simp
  have n: "\<not> snd (acknowledgeAlert 200 exampleDb 2 alice)"
    by code_simp
  have s: "snd (acknowledgeAlert 200 exampleDb 1 alice)"
    using c1 [THEN conjunct2, THEN conjunct2, THEN conjunct2, THEN conjunct2, THEN conjunct1] g
    by (rule mp [THEN conjunct1])
  have r: "map acknowledged_by (rows (fst (acknowledgeAlert 200 exampleDb 1 alice))) =
      [Some ''alice'']"
    by code_simp
  have t: "acknowledgeAlert 300 (fst (acknowledgeAlert 200 exampleDb 1 alice)) 1 bob =
       (fst (acknowledgeAlert 200 exampleDb 1 alice), False)"
    by (rule c1 [THEN conjunct2, THEN conjunct2, THEN conjunct2, THEN conjunct2, THEN conjunct2])
  have f: "fst (acknowledgeAlert 200 exampleDb 2 alice) = exampleDb"
    using c2 [THEN conjunct2, THEN conjunct2, THEN conjunct2, THEN conjunct1] n by (rule mp)
  show ?thesis
    using s r t f by simp
qed

subsection \<open>Resolve\<close>

lemma resolveAlert_result:
  "snd (resolveAlert now db alertId u) =
     (\<exists>r \<in> set (rows db). alert_id r = alertId \<and> acknowledged r \<and> \<not> resolved r)"
  using sqlUpdate_changes
    [of "\<lambda>r. alert_id r = alertId \<and> acknowledged r = True \<and> resolved r = False"]
  by (simp add: resolveAlert_def split_beta)

lemma resolveAlert_rows:
  "rows (fst (resolveAlert now db alertId u)) =
     map (\<lambda>r. if alert_id r = alertId \<and> acknowledged r \<and> \<not> resolved r
               then r\<lparr>resolved := True, resolved_by := username u,
                      resolved_by_id := Some (userId u),
                      resolved_by_name := Some (fullName u),
                      resolved_at := Some now\<rparr>
               else r) (rows db)"
  by (simp add: resolveAlert_def split_beta sqlUpdate_rows)

lemma resolveAlert_lastId:
  "lastId (fst (resolveAlert now db alertId u)) = lastId db"
  by (simp add: resolveAlert_def split_beta sqlUpdate_def)

lemma resolveAlert_fail:
  assumes "\<not> snd (resolveAlert now db alertId u)"
  shows "fst (resolveAlert now db alertId u) = db"
proof -
  have "\<forall>r \<in> set (rows db).
      \<not> (alert_id r = alertId \<and> acknowledged r = True \<and> resolved r = False)"
    using assms by (simp add: resolveAlert_result)
  then show ?thesis
    by (simp add: resolveAlert_def sqlUpdate_no_hit)
qed

lemma resolveAlert_unacknowledged:
  assumes "\<forall>r \<in> set (rows db). alert_id r = alertId \<longrightarrow> \<not> acknowledged r"
  shows "resolveAlert now db alertId u = (db, False)"
proof -
  have n: "\<not> snd (resolveAlert now db alertId u)"
    using assms unfolding resolveAlert_result by blast
  then have "fst (resolveAlert now db alertId u) = db"
    by (rule resolveAlert_fail)
  with n show ?thesis
    by (simp add: prod_eq_iff)
qed

text \<open>Every statement keeps "resolved implies acknowledged" on every row.\<close>

lemma execute_resolved_acknowledged:
  assumes "list_all (\<lambda>r. \<not> resolved r \<or> acknowledged r) (rows db)"
  shows "list_all (\<lambda>r. \<not> resolved r \<or> acknowledged r) (rows (execute db st))"
proof (cases st)
  case (CreateAlert now t s sev m ts md)
  then show ?thesis
    using assms by (simp add: createAlert_def Let_def)
next
  case (UpdateTelegramInfo i mid cid)
  then show ?thesis
    using assms by (auto simp: updateTelegramInfo_def sqlUpdate_def list_all_iff)
next
  case (AcknowledgeAlert now i u)
  then show ?thesis
    using assms by (auto simp: acknowledgeAlert_def sqlUpdate_def list_all_iff)
next
  case (ResolveAlert now i u)
  then show ?thesis
    using assms by (auto simp: resolveAlert_def sqlUpdate_def list_all_iff)
qed

lemma reachable_resolved_acknowledged:
  assumes "reachable db"
  shows "\<forall>r \<in> set (rows db). resolved r \<longrightarrow> acknowledged r"
proof -
  from assms have "list_all (\<lambda>r. \<not> resolved r \<or> acknowledged r) (rows db)"
  proof (induction rule: reachable.induct)
    case reachable_empty
    show ?case by (simp add: emptyDatabase_def)
  next
    case (reachable_step db st)
    from reachable_step.IH show ?case by (rule execute_resolved_acknowledged)
  qed
  then show ?thesis
    by (auto simp: list_all_iff)
qed

text \<open>
  C1. Resolve returns true exactly when a row with that id is acknowledged and not resolved;
  it rewrites exactly those rows, setting the resolved flag, the three attribution fields of
  the resolver and the time, and nothing else; when it returns false (no row with the id,
  not acknowledged, or already resolved) the database is unchanged. On an id none of whose
  rows is acknowledged it returns false and changes nothing. In every state reachable from
  the empty table by the repository's writing statements, a resolved row is acknowledged.
\<close>

theorem resolveAlert_conditional_update:
  "snd (resolveAlert now db alertId u) =
       (\<exists>r \<in> set (rows db). alert_id r = alertId \<and> acknowledged r \<and> \<not> resolved r)
   \<and> rows (fst (resolveAlert now db alertId u)) =
       map (\<lambda>r. if alert_id r = alertId \<and> acknowledged r \<and> \<not> resolved r
                 then r\<lparr>resolved := True, resolved_by := username u,
                        resolved_by_id := Some (userId u),
                        resolved_by_name := Some (fullName u),
                        resolved_at := Some now\<rparr>
                 else r) (rows db)
   \<and> lastId (fst (resolveAlert now db alertId u)) = lastId db
   \<and> (\<not> snd (resolveAlert now db alertId u) \<longrightarrow> fst (resolveAlert now db alertId u) = db)
   \<and> ((\<forall>r \<in> set (rows db). alert_id r = alertId \<longrightarrow> \<not> acknowledged r) \<longrightarrow>
        resolveAlert now db alertId u = (db, False))
   \<and> (reachable db \<longrightarrow> (\<forall>r \<in> set (rows db). resolved r \<longrightarrow> acknowledged r))"
proof (intro conjI impI)
  show "snd (resolveAlert now db alertId u) =
       (\<exists>r \<in> set (rows db). alert_id r = alertId \<and> acknowledged r \<and> \<not> resolved r)"
    by (rule resolveAlert_result)
  show "rows (fst (resolveAlert now db alertId u)) =
       map (\<lambda>r. if alert_id r = alertId \<and> acknowledged r \<and> \<not> resolved r
                 then r\<lparr>resolved := True, resolved_by := username u,
                        resolved_by_id := Some (userId u),
                        resolved_by_name := Some (fullName u),
                        resolved_at := Some now\<rparr>
                 else r) (rows db)"
    by (rule resolveAlert_rows)
  show "lastId (fst (resolveAlert now db alertId u)) = lastId db"
    by (rule resolveAlert_lastId)
  show "fst (resolveAlert now db alertId u) = db" if "\<not> snd (resolveAlert now db alertId u)"
    using that by (rule resolveAlert_fail)
  show "resolveAlert now db alertId u = (db, False)"
    if "\<forall>r \<in> set (rows db). alert_id r = alertId \<longrightarrow> \<not> acknowledged r"
    using that by (rule resolveAlert_unacknowledged)
  show "\<forall>r \<in> set (rows db). resolved r \<longrightarrow> acknowledged r" if "reachable db"
    using that by (rule reachable_resolved_acknowledged)
qed

theorem resolveAlert_conditional_update_witness:
  "resolveAlert 300 exampleDb 1 bob = (exampleDb, False)
   \<and> snd (resolveAlert 300 ackedDb 1 bob)
   \<and> fst (resolveAlert 400 resolvedDb 1 alice) = resolvedDb
   \<and> resolved (hd (rows resolvedDb)) \<and> acknowledged (hd (rows resolvedDb))"
proof -
  note c1 = resolveAlert_conditional_update [of 300 exampleDb 1 bob]
  note c2 = resolveAlert_conditional_update [of 300 ackedDb 1 bob]
  note c3 = resolveAlert_conditional_update [of 400 resolvedDb 1 alice]
  have u: "\<forall>r \<in> set (rows exampleDb). alert_id r = 1 \<longrightarrow> \<not> acknowledged r"
    by code_simp
  have a: "resolveAlert 300 exampleDb 1 bob = (exampleDb, False)"
    using c1 [THEN conjunct2, THEN conjunct2, THEN conjunct2, THEN conjunct2, THEN conjunct1] u
    by (rule mp)
  have e: "\<exists>r \<in> set (rows ackedDb). alert_id r = 1 \<and> acknowledged r \<and> \<not> resolved r"
    by code_simp
  have b: "snd (resolveAlert 300 ackedDb 1 bob)"
    using c2 [THEN conjunct1] e by simp
  have n: "\<not> snd (resolveAlert 400 resolvedDb 1 alice)"
    by code_simp
  have c: "fst (resolveAlert 400 resolvedDb 1 alice) = resolvedDb"
    using c3 [THEN conjunct2, THEN conjunct2, THEN conjunct2, THEN conjunct1] n by (rule mp)
  have "reachable resolvedDb"
    unfolding resolvedDb_def ackedDb_def exampleDb_def
    by (intro reachable_step reachable_empty)
  with c3 have inv: "\<forall>r \<in> set (rows resolvedDb). resolved r \<longrightarrow> acknowledged r"
    by (rule conjunct2 [THEN conjunct2, THEN conjunct2, THEN conjunct2, THEN conjunct2, THEN mp])
  have m: "hd (rows resolvedDb) \<in> set (rows resolvedDb)"
    by code_simp
  have d: "resolved (hd (rows resolvedDb))"
    by code_simp
  from inv m d have "acknowledged (hd (rows resolvedDb))"
    by blast
  with a b c d show ?thesis
    by simp
qed

subsection \<open>Weekly report\<close>

text \<open>
  C8, what the code does. When no row was created within the trailing seven days the query
  returns a total of 0 and NULL, not 0, for each of the six sums: the report's acknowledged,
  resolved, unacknowledged, critical, warning and info are null.
\<close>

theorem getWeeklyReport_empty_window:
  assumes "filter (\<lambda>r. created_at r \<ge> now - 7 * 86400) (rows db) = []"
  shows "getWeeklyReport now db =
     JObj [(''total'', JNum 0), (''acknowledged'', JNull), (''resolved'', JNull),
           (''unacknowledged'', JNull), (''critical'', JNull), (''warning'', JNull),
           (''info'', JNull)]"
  using assms by (simp add: getWeeklyReport_def sqlCount_def sumCase_def sqlSum_def)

theorem getWeeklyReport_empty_window_witness:
  "getWeeklyReport 1000000 exampleDb =
     JObj [(''total'', JNum 0), (''acknowledged'', JNull), (''resolved'', JNull),
           (''unacknowledged'', JNull), (''critical'', JNull), (''warning'', JNull),
           (''info'', JNull)]
   \<and> propOf (getWeeklyReport 99 emptyDatabase) ''acknowledged'' = JNull"
proof -
  have a: "filter (\<lambda>r. created_at r \<ge> 1000000 - 7 * 86400) (rows exampleDb) = []"
    by code_simp
  have b: "filter (\<lambda>r. created_at r \<ge> 99 - 7 * 86400) (rows emptyDatabase) = []"
    by (simp add: emptyDatabase_def)
  show ?thesis
    using getWeeklyReport_empty_window [OF a] getWeeklyReport_empty_window [OF b]
    by simp
qed

section \<open>Properties of format detection\<close>

lemma propOf_not_nullish: "propOf v k = JStr t \<Longrightarrow> \<not> nullish v"
  by (cases v) simp_all

lemma canonical_lower:
  "sev \<in> set [''critical'', ''warning'', ''info''] \<Longrightarrow> toLowerCase sev = sev"
proof -
  have "toLowerCase ''critical'' = ''critical''" by code_simp
  moreover have "toLowerCase ''warning'' = ''warning''" by code_simp
  moreover have "toLowerCase ''info'' = ''info''" by code_simp
  ultimately show "sev \<in> set [''critical'', ''warning'', ''info''] \<Longrightarrow> toLowerCase sev = sev"
    by auto
qed

lemma checkRequired_strings:
  assumes "propOf payload ''title'' = JStr t" and "t \<noteq> []"
    and "propOf payload ''source'' = JStr s" and "s \<noteq> []"
    and "propOf payload ''severity'' = JStr sev" and "sev \<noteq> []"
    and "propOf payload ''message'' = JStr m" and "m \<noteq> []"
  shows "checkRequired payload [''title'', ''source'', ''severity'', ''message''] = Inr None"
  using assms propOf_not_nullish [OF assms(1)] by (simp add: getProp_def)

lemma nativeFields_strings:
  assumes "propOf payload ''title'' = JStr t" and "t \<noteq> []"
    and "propOf payload ''source'' = JStr s" and "s \<noteq> []"
    and "propOf payload ''severity'' = JStr sev" and "sev \<noteq> []"
    and "propOf payload ''message'' = JStr m" and "m \<noteq> []"
  shows "nativeFields payload"
  using assms by (simp add: nativeFields_def)

lemma validate_canonical:
  assumes "propOf payload ''title'' = JStr t" and "t \<noteq> []" and "length t \<le> 200"
    and "propOf payload ''source'' = JStr s" and "s \<noteq> []"
    and "propOf payload ''severity'' = JStr sev"
    and "sev \<in> set [''critical'', ''warning'', ''info'']"
    and "propOf payload ''message'' = JStr m" and "m \<noteq> []" and "length m \<le> 2000"
  shows "validateAlertPayload payload = Inr Valid"
proof -
  have ne: "sev \<noteq> []"
    using assms(7) by auto
  have c: "checkRequired payload [''title'', ''source'', ''severity'', ''message''] = Inr None"
    using assms(1,2,4,5,6) ne assms(8,9) by (rule checkRequired_strings)
  show ?thesis
    unfolding validateAlertPayload_def c
    using assms by (simp add: validSeverities_def)
qed

lemma validate_long_title:
  assumes "propOf payload ''title'' = JStr t" and "length t > 200"
    and "propOf payload ''source'' = JStr s" and "s \<noteq> []"
    and "propOf payload ''severity'' = JStr sev" and "sev \<noteq> []"
    and "propOf payload ''message'' = JStr m" and "m \<noteq> []"
  shows "validateAlertPayload payload =
     Inr (Invalid (if sev \<in> set validSeverities
        then ''Title too long (max 200 characters)''
        else ''Invalid severity. Must be one of: '' @ intercalate '', '' validSeverities))"
proof -
  have ne: "t \<noteq> []"
    using assms(2) by auto
  have c: "checkRequired payload [''title'', ''source'', ''severity'', ''message''] = Inr None"
    using assms(1) ne assms(3-8) by (rule checkRequired_strings)
  show ?thesis
    unfolding validateAlertPayload_def c
    using assms by simp
qed

text \<open>
  C4. For a payload whose title, source, severity and message are non-empty strings, with the
  severity one of critical, warning and info, the title at most 200 and the message at most
  2000 characters long, the detector returns null (no transformation), and the handler
  stores the payload's title, source and message trimmed and its severity lower-cased (which
  leaves a canonical severity as it is), with the payload's timestamp or else the time of
  receipt.
\<close>

theorem canonical_payload_not_transformed:
  assumes "propOf payload ''title'' = JStr t" and "t \<noteq> []" and "length t \<le> 200"
    and "propOf payload ''source'' = JStr s" and "s \<noteq> []"
    and "propOf payload ''severity'' = JStr sev"
    and "sev \<in> set [''critical'', ''warning'', ''info'']"
    and "propOf payload ''message'' = JStr m" and "m \<noteq> []" and "length m \<le> 2000"
  shows "detectAndTransformWebhook env payload = Inr JNull
    \<and> postAlert env payload =
        Inr (AlertData (JObj
          [(''title'', JStr (trim t)),
           (''source'', JStr (trim s)),
           (''severity'', JStr (toLowerCase sev)),
           (''message'', JStr (trim m)),
           (''timestamp'', orElse (propOf payload ''timestamp'') (JNum (dateNow env)))]))
    \<and> toLowerCase sev = sev"
proof -
  have ne: "sev \<noteq> []"
    using assms(7) by auto
  have v: "validateAlertPayload payload = Inr Valid"
    using assms by (rule validate_canonical)
  have n: "nativeFields payload"
    using assms(1,2,4,5,6) ne assms(8,9) by (rule nativeFields_strings)
  have nn: "\<not> nullish payload"
    using assms(1) by (rule propOf_not_nullish)
  have d: "detectAndTransformWebhook env payload = Inr JNull"
    by (simp add: detectAndTransformWebhook_def getProp_def nn n v)
  have p: "postAlert env payload =
        Inr (AlertData (JObj
          [(''title'', JStr (trim t)),
           (''source'', JStr (trim s)),
           (''severity'', JStr (toLowerCase sev)),
           (''message'', JStr (trim m)),
           (''timestamp'', orElse (propOf payload ''timestamp'') (JNum (dateNow env)))]))"
    by (simp add: postAlert_def logLine_def d v assms(1,4,6,8))
  from d p canonical_lower [OF assms(7)] show ?thesis by blast
qed

theorem canonical_payload_not_transformed_witness:
  "detectAndTransformWebhook exampleEnv canonicalPayload = Inr JNull
   \<and> postAlert exampleEnv canonicalPayload =
       Inr (AlertData (JObj
         [(''title'', JStr ''DB down''), (''source'', JStr ''svc''),
          (''severity'', JStr ''critical''), (''message'', JStr ''timeout''),
          (''timestamp'', JNum 1700000000000)]))"
proof -
  have t: "propOf canonicalPayload ''title'' = JStr '' DB down ''" by code_simp
  have s: "propOf canonicalPayload ''source'' = JStr ''svc''" by code_simp
  have v: "propOf canonicalPayload ''severity'' = JStr ''critical''" by code_simp
  have m: "propOf canonicalPayload ''message'' = JStr ''timeout''" by code_simp
  have e: "trim '' DB down '' = ''DB down'' \<and> trim ''svc'' = ''svc''
      \<and> toLowerCase ''critical'' = ''critical'' \<and> trim ''timeout'' = ''timeout''
      \<and> orElse (propOf canonicalPayload ''timestamp'') (JNum (dateNow exampleEnv)) =
          JNum 1700000000000"
    by code_simp
  show ?thesis
    using canonical_payload_not_transformed [OF t _ _ s _ v _ m, of exampleEnv] e
    by simp
qed

lemma checkRequired_total:
  "\<not> nullish payload \<Longrightarrow> \<exists>r. checkRequired payload fs = Inr r"
  by (induction fs) (simp_all add: getProp_def)

lemma validateAlertPayload_total:
  assumes "\<not> nullish payload"
  shows "\<exists>v. validateAlertPayload payload = Inr v"
proof -
  obtain r where "checkRequired payload [''title'', ''source'', ''severity'', ''message''] = Inr r"
    using checkRequired_total [OF assms] by blast
  then show ?thesis
    by (cases r) (simp_all add: validateAlertPayload_def)
qed

lemma detect_order:
  assumes "\<not> nullish payload"
  shows "detectAndTransformWebhook env payload =
     (if nativeFields payload \<and> validateAlertPayload payload = Inr Valid then Inr JNull
      else if grafanaShape payload then transformGrafanaWebhook env payload
      else if prometheusShape payload then transformPrometheusWebhook env payload
      else if zabbixShape payload then transformZabbixWebhook env payload
      else if genericShape payload then transformGenericWebhook env payload
      else Inr JNull)"
proof -
  obtain v where v: "validateAlertPayload payload = Inr v"
    using validateAlertPayload_total [OF assms] by blast
  show ?thesis
    using assms by (simp add: detectAndTransformWebhook_def getProp_def v)
qed

lemma objectEntries_total:
  "\<not> nullish v \<Longrightarrow> \<exists>es. objectEntries v = Inr es"
  by (cases v) simp_all

lemma orElse_str: "x \<noteq> [] \<Longrightarrow> orElse (JStr x) y = JStr x"
  by (simp add: orElse_def)

lemma transformGeneric_strings:
  assumes "propOf payload ''title'' = JStr t" and "t \<noteq> []"
    and "propOf payload ''source'' = JStr s" and "s \<noteq> []"
    and "propOf payload ''severity'' = JStr sev" and "sev \<noteq> []"
    and "propOf payload ''message'' = JStr m" and "m \<noteq> []"
    and "(if truthy (propOf payload ''timestamp'')
          then dateGetTime env (propOf payload ''timestamp'')
          else Inr (JNum (dateNow env))) = Inr ts"
  shows "\<exists>sv md. sv \<in> set [''critical'', ''warning'', ''info'']
     \<and> transformGenericWebhook env payload =
         Inr (JObj [(''title'', JStr t), (''source'', JStr s), (''severity'', JStr sv),
                    (''message'', JStr m), (''timestamp'', ts), (''metadata'', md)])"
proof -
  have nn: "\<not> nullish payload"
    using assms(1) by (rule propOf_not_nullish)
  obtain es where es: "objectEntries payload = Inr es"
    using objectEntries_total [OF nn] by blast
  have "toString_call (orElse (orElse (JStr sev) (propOf payload ''status'')) (JStr [])) = Inr sev"
    using assms(6) by (simp add: orElse_def toString_call_def)
  then have "mapSeverity (JStr sev) (propOf payload ''status'') ''generic''
      \<in> {Inr ''critical'', Inr ''warning'', Inr ''info''}"
    by (rule mapSeverity_of_string)
  then obtain sv where sv: "sv \<in> set [''critical'', ''warning'', ''info'']"
    and ms: "mapSeverity (JStr sev) (propOf payload ''status'') ''generic'' = Inr sv"
    by auto
  have "transformGenericWebhook env payload =
      Inr (JObj [(''title'', JStr t), (''source'', JStr s), (''severity'', JStr sv),
                 (''message'', JStr m), (''timestamp'', ts),
                 (''metadata'', JObj
                   [(''status'', orElse (propOf payload ''status'')
                       (orElse (propOf payload ''level'') (JStr ''active''))),
                    (''labels'', JObj (genericLabels es)),
                    (''annotations'', JObj []),
                    (''values'', JObj []),
                    (''urls'', JObj [])])])"
    by (simp add: transformGenericWebhook_def getProp_def nn es Let_def assms(1,3,5,7,9)
        orElse_str assms(2,4,6,8) ms)
  with sv show ?thesis by blast
qed

lemma transformGeneric_returns:
  assumes "transformGenericWebhook env payload = Inr a"
  shows "\<exists>ts. (if truthy (propOf payload ''timestamp'')
          then dateGetTime env (propOf payload ''timestamp'')
          else Inr (JNum (dateNow env))) = Inr ts"
  using assms unfolding transformGenericWebhook_def Let_def bnd_eq_Inr by auto

lemma dateGetTime_primitive:
  "isPrimitive v \<Longrightarrow> \<exists>ts. dateGetTime env v = Inr ts"
  by (cases v) simp_all

lemma postAlert_generic:
  assumes "propOf payload ''title'' = JStr t" and "t \<noteq> []"
    and "propOf payload ''source'' = JStr s" and "s \<noteq> []"
    and "propOf payload ''severity'' = JStr sev" and "sev \<noteq> []"
    and "propOf payload ''message'' = JStr m" and "m \<noteq> []"
    and "detectAndTransformWebhook env payload = transformGenericWebhook env payload"
  shows "postAlert env payload =
     bnd (transformGenericWebhook env payload) (\<lambda>a. Inr (AlertData a))"
proof (cases "transformGenericWebhook env payload")
  case (Inl e)
  then show ?thesis
    by (simp add: postAlert_def assms(9))
next
  case (Inr a)
  then obtain ts where "(if truthy (propOf payload ''timestamp'')
          then dateGetTime env (propOf payload ''timestamp'')
          else Inr (JNum (dateNow env))) = Inr ts"
    using transformGeneric_returns by blast
  then obtain sv md where "transformGenericWebhook env payload =
         Inr (JObj [(''title'', JStr t), (''source'', JStr s), (''severity'', JStr sv),
                    (''message'', JStr m), (''timestamp'', ts), (''metadata'', md)])"
    using transformGeneric_strings [OF assms(1-8)] by blast
  with Inr have a: "a = JObj [(''title'', JStr t), (''source'', JStr s), (''severity'', JStr sv),
                    (''message'', JStr m), (''timestamp'', ts), (''metadata'', md)]"
    by simp
  have "logLine a = Inr (t @ '' ('' @ sv @ '') from '' @ s)"
    unfolding a by (simp add: logLine_def)
  then show ?thesis
    using Inr by (simp add: postAlert_def assms(9) a)
qed

text \<open>
  How the code's conditions relate to the shapes of the specification: a payload that
  satisfies the Grafana or Prometheus condition is so shaped unless its alerts array is
  empty, and a Zabbix-shaped payload satisfies the Zabbix condition, which asks for truthy
  values, not for objects.
\<close>

lemma truthy_hasField:
  assumes "truthy (propOf v k)" and "k \<noteq> ''length''" and "k \<noteq> ''values''" and "k \<noteq> ''name''"
  shows "hasField v k"
proof (cases v)
  case (JObj kvs)
  with assms(1) obtain x where "map_of kvs k = Some x"
    by (cases "map_of kvs k") simp_all
  then have "(k, x) \<in> set kvs"
    by (rule map_of_SomeD)
  then have "k \<in> fst ` set kvs"
    by force
  with JObj show ?thesis
    by (simp add: hasField_def)
qed (use assms in simp_all)

lemma grafanaShape_spec:
  assumes "grafanaShape payload" and "propOf payload ''alerts'' \<noteq> JArr []"
  shows "specGrafanaShaped payload"
proof -
  from assms(1) have r: "truthy (propOf payload ''receiver'')"
    and a: "isArray (propOf payload ''alerts'')"
    by (simp_all add: grafanaShape_def)
  from a assms(2) have "nonEmptyArray (propOf payload ''alerts'')"
    by (cases "propOf payload ''alerts''") simp_all
  moreover have "hasField payload ''receiver''"
    using r by (rule truthy_hasField) simp_all
  ultimately show ?thesis
    by (simp add: specGrafanaShaped_def)
qed

lemma prometheusShape_spec:
  assumes "prometheusShape payload" and "propOf payload ''alerts'' \<noteq> JArr []"
  shows "specPrometheusShaped payload"
proof -
  from assms(1) have r: "truthy (propOf payload ''groupKey'')"
    and a: "isArray (propOf payload ''alerts'')"
    by (simp_all add: prometheusShape_def)
  from a assms(2) have "nonEmptyArray (propOf payload ''alerts'')"
    by (cases "propOf payload ''alerts''") simp_all
  moreover have "hasField payload ''groupKey''"
    using r by (rule truthy_hasField) simp_all
  ultimately show ?thesis
    by (simp add: specPrometheusShaped_def)
qed

lemma specZabbixShaped_zabbixShape:
  assumes "specZabbixShaped payload"
  shows "zabbixShape payload"
proof -
  have "truthy v" if "isObject v" for v
    using that by (cases v) simp_all
  with assms show ?thesis
    unfolding specZabbixShaped_def zabbixShape_def by blast
qed

text \<open>
  C9, as amended. On a payload that is not null or undefined the detector tries the five
  conditions of the code in the order native, Grafana, Prometheus, Zabbix, generic, and the
  first that holds decides. So for a payload whose title, source, severity and message are
  non-empty strings and whose title is longer than 200 characters, the validation of the
  native branch fails; and if moreover the payload is neither Grafana-shaped nor
  Prometheus-shaped, has no empty alerts array beside a truthy receiver or groupKey, does
  not satisfy the code's Zabbix condition (a truthy trigger with a truthy event or problem),
  and at least one of status, level and priority holds a truthy value, then the detector
  takes the generic branch: its result is that of the generic transformation, and the
  handler stores it instead of answering 400. That transformation returns the payload's
  title, source and message with a severity among critical, warning and info whenever the
  conversion of the timestamp returns, as it does for every timestamp that is absent or a
  primitive value.
\<close>

theorem oversize_title_generic:
  "(\<not> nullish payload \<longrightarrow>
      detectAndTransformWebhook env payload =
        (if nativeFields payload \<and> validateAlertPayload payload = Inr Valid then Inr JNull
         else if grafanaShape payload then transformGrafanaWebhook env payload
         else if prometheusShape payload then transformPrometheusWebhook env payload
         else if zabbixShape payload then transformZabbixWebhook env payload
         else if genericShape payload then transformGenericWebhook env payload
         else Inr JNull))
   \<and> (propOf payload ''title'' = JStr t \<and> length t > 200
       \<and> propOf payload ''source'' = JStr s \<and> s \<noteq> []
       \<and> propOf payload ''severity'' = JStr sev \<and> sev \<noteq> []
       \<and> propOf payload ''message'' = JStr m \<and> m \<noteq> []
       \<and> \<not> specGrafanaShaped payload \<and> \<not> specPrometheusShaped payload
       \<and> \<not> (propOf payload ''alerts'' = JArr []
             \<and> (truthy (propOf payload ''receiver'') \<or> truthy (propOf payload ''groupKey'')))
       \<and> \<not> zabbixShape payload
       \<and> (truthy (propOf payload ''status'') \<or> truthy (propOf payload ''level'')
           \<or> truthy (propOf payload ''priority''))
      \<longrightarrow>
        (\<exists>e. validateAlertPayload payload = Inr (Invalid e))
        \<and> detectAndTransformWebhook env payload = transformGenericWebhook env payload
        \<and> postAlert env payload =
            bnd (transformGenericWebhook env payload) (\<lambda>a. Inr (AlertData a))
        \<and> (\<forall>ts. (if truthy (propOf payload ''timestamp'')
                  then dateGetTime env (propOf payload ''timestamp'')
                  else Inr (JNum (dateNow env))) = Inr ts \<longrightarrow>
              (\<exists>sv md. sv \<in> set [''critical'', ''warning'', ''info'']
                 \<and> transformGenericWebhook env payload =
                     Inr (JObj [(''title'', JStr t), (''source'', JStr s),
                                (''severity'', JStr sv), (''message'', JStr m),
                                (''timestamp'', ts), (''metadata'', md)])))
        \<and> (isPrimitive (propOf payload ''timestamp'') \<longrightarrow>
              (\<exists>sv ts md. sv \<in> set [''critical'', ''warning'', ''info'']
                 \<and> postAlert env payload =
                     Inr (AlertData (JObj [(''title'', JStr t), (''source'', JStr s),
                                (''severity'', JStr sv), (''message'', JStr m),
                                (''timestamp'', ts), (''metadata'', md)])))))"
proof (intro conjI impI)
  assume "\<not> nullish payload"
  then show "detectAndTransformWebhook env payload =
        (if nativeFields payload \<and> validateAlertPayload payload = Inr Valid then Inr JNull
         else if grafanaShape payload then transformGrafanaWebhook env payload
         else if prometheusShape payload then transformPrometheusWebhook env payload
         else if zabbixShape payload then transformZabbixWebhook env payload
         else if genericShape payload then transformGenericWebhook env payload
         else Inr JNull)"
    by (rule detect_order)
next
  assume h: "propOf payload ''title'' = JStr t \<and> length t > 200
       \<and> propOf payload ''source'' = JStr s \<and> s \<noteq> []
       \<and> propOf payload ''severity'' = JStr sev \<and> sev \<noteq> []
       \<and> propOf payload ''message'' = JStr m \<and> m \<noteq> []
       \<and> \<not> specGrafanaShaped payload \<and> \<not> specPrometheusShaped payload
       \<and> \<not> (propOf payload ''alerts'' = JArr []
             \<and> (truthy (propOf payload ''receiver'') \<or> truthy (propOf payload ''groupKey'')))
       \<and> \<not> zabbixShape payload
       \<and> (truthy (propOf payload ''status'') \<or> truthy (propOf payload ''level'')
           \<or> truthy (propOf payload ''priority''))"
  then have t: "propOf payload ''title'' = JStr t" and lt: "length t > 200"
    and s: "propOf payload ''source'' = JStr s" and sn: "s \<noteq> []"
    and v: "propOf payload ''severity'' = JStr sev" and vn: "sev \<noteq> []"
    and m: "propOf payload ''message'' = JStr m" and mn: "m \<noteq> []"
    and sg: "\<not> specGrafanaShaped payload" and sp: "\<not> specPrometheusShaped payload"
    and ea: "\<not> (propOf payload ''alerts'' = JArr []
             \<and> (truthy (propOf payload ''receiver'') \<or> truthy (propOf payload ''groupKey'')))"
    and nz: "\<not> zabbixShape payload"
    by simp_all
  from lt have tn: "t \<noteq> []"
    by auto
  have nn: "\<not> nullish payload"
    using t by (rule propOf_not_nullish)
  have ng: "\<not> grafanaShape payload"
  proof
    assume g: "grafanaShape payload"
    then have "truthy (propOf payload ''receiver'')"
      by (simp add: grafanaShape_def)
    with ea have "propOf payload ''alerts'' \<noteq> JArr []"
      by blast
    with g sg show False
      using grafanaShape_spec by blast
  qed
  have np: "\<not> prometheusShape payload"
  proof
    assume g: "prometheusShape payload"
    then have "truthy (propOf payload ''groupKey'')"
      by (simp add: prometheusShape_def)
    with ea have "propOf payload ''alerts'' \<noteq> JArr []"
      by blast
    with g sp show False
      using prometheusShape_spec by blast
  qed
  have inv: "validateAlertPayload payload =
     Inr (Invalid (if sev \<in> set validSeverities
        then ''Title too long (max 200 characters)''
        else ''Invalid severity. Must be one of: '' @ intercalate '', '' validSeverities))"
    using t lt s sn v vn m mn by (rule validate_long_title)
  then show "\<exists>e. validateAlertPayload payload = Inr (Invalid e)"
    by blast
  have g: "genericShape payload"
    using h by (simp add: genericShape_def)
  show d: "detectAndTransformWebhook env payload = transformGenericWebhook env payload"
    unfolding detect_order [OF nn] inv using ng np nz g by simp
  show pa: "postAlert env payload =
            bnd (transformGenericWebhook env payload) (\<lambda>a. Inr (AlertData a))"
    using t tn s sn v vn m mn d by (rule postAlert_generic)
  show "\<forall>ts. (if truthy (propOf payload ''timestamp'')
                  then dateGetTime env (propOf payload ''timestamp'')
                  else Inr (JNum (dateNow env))) = Inr ts \<longrightarrow>
              (\<exists>sv md. sv \<in> set [''critical'', ''warning'', ''info'']
                 \<and> transformGenericWebhook env payload =
                     Inr (JObj [(''title'', JStr t), (''source'', JStr s),
                                (''severity'', JStr sv), (''message'', JStr m),
                                (''timestamp'', ts), (''metadata'', md)]))"
    using transformGeneric_strings [OF t tn s sn v vn m mn] by blast
  show "\<exists>sv ts md. sv \<in> set [''critical'', ''warning'', ''info'']
                 \<and> postAlert env payload =
                     Inr (AlertData (JObj [(''title'', JStr t), (''source'', JStr s),
                                (''severity'', JStr sv), (''message'', JStr m),
                                (''timestamp'', ts), (''metadata'', md)]))"
    if pr: "isPrimitive (propOf payload ''timestamp'')"
  proof -
    obtain ts where "(if truthy (propOf payload ''timestamp'')
          then dateGetTime env (propOf payload ''timestamp'')
          else Inr (JNum (dateNow env))) = Inr ts"
      using dateGetTime_primitive [OF pr, of env]
      by (cases "truthy (propOf payload ''timestamp'')") auto
    then obtain sv md where sv: "sv \<in> set [''critical'', ''warning'', ''info'']"
      and r: "transformGenericWebhook env payload =
         Inr (JObj [(''title'', JStr t), (''source'', JStr s), (''severity'', JStr sv),
                    (''message'', JStr m), (''timestamp'', ts), (''metadata'', md)])"
      using transformGeneric_strings [OF t tn s sn v vn m mn] by blast
    have "postAlert env payload =
        Inr (AlertData (JObj [(''title'', JStr t), (''source'', JStr s), (''severity'', JStr sv),
                    (''message'', JStr m), (''timestamp'', ts), (''metadata'', md)]))"
      unfolding pa r by simp
    with sv show ?thesis
      by blast
  qed
qed

theorem oversize_title_generic_witness:
  "detectAndTransformWebhook exampleEnv canonicalPayload = Inr JNull
   \<and> detectAndTransformWebhook exampleEnv longTitleGeneric =
     transformGenericWebhook exampleEnv longTitleGeneric
   \<and> postAlert exampleEnv longTitleGeneric =
       bnd (transformGenericWebhook exampleEnv longTitleGeneric) (\<lambda>a. Inr (AlertData a))
   \<and> validateAlertPayload longTitleGeneric = Inr (Invalid ''Title too long (max 200 characters)'')
   \<and> propOf (case postAlert exampleEnv longTitleGeneric of
         Inr (AlertData a) \<Rightarrow> a | _ \<Rightarrow> JNull) ''title'' = JStr (replicate 201 CHR ''a'')
   \<and> propOf (case postAlert exampleEnv longTitleGeneric of
         Inr (AlertData a) \<Rightarrow> a | _ \<Rightarrow> JNull) ''severity'' = JStr ''info''"
proof -
  have h: "propOf longTitleGeneric ''title'' = JStr (replicate 201 CHR ''a'')
       \<and> length (replicate 201 CHR ''a'') > 200
       \<and> propOf longTitleGeneric ''source'' = JStr ''svc'' \<and> ''svc'' \<noteq> []
       \<and> propOf longTitleGeneric ''severity'' = JStr ''info'' \<and> ''info'' \<noteq> []
       \<and> propOf longTitleGeneric ''message'' = JStr ''disk full'' \<and> ''disk full'' \<noteq> []
       \<and> \<not> specGrafanaShaped longTitleGeneric \<and> \<not> specPrometheusShaped longTitleGeneric
       \<and> \<not> (propOf longTitleGeneric ''alerts'' = JArr []
             \<and> (truthy (propOf longTitleGeneric ''receiver'')
               \<or> truthy (propOf longTitleGeneric ''groupKey'')))
       \<and> \<not> zabbixShape longTitleGeneric
       \<and> (truthy (propOf longTitleGeneric ''status'') \<or> truthy (propOf longTitleGeneric ''level'')
           \<or> truthy (propOf longTitleGeneric ''priority''))"
    by code_simp
  note c = oversize_title_generic [of longTitleGeneric exampleEnv "replicate 201 CHR ''a''"
      "''svc''" "''info''" "''disk full''", THEN conjunct2, THEN mp, OF h]
  have v: "validateAlertPayload longTitleGeneric =
      Inr (Invalid ''Title too long (max 200 characters)'')"
    by code_simp
  have i: "isPrimitive (propOf longTitleGeneric ''timestamp'')"
    by code_simp
  from c [THEN conjunct2, THEN conjunct2, THEN conjunct2, THEN conjunct2, THEN mp, OF i]
  obtain sv ts md where "postAlert exampleEnv longTitleGeneric =
      Inr (AlertData (JObj [(''title'', JStr (replicate 201 CHR ''a'')), (''source'', JStr ''svc''),
                    (''severity'', JStr sv), (''message'', JStr ''disk full''),
                    (''timestamp'', ts), (''metadata'', md)]))"
    by blast
  then have ti: "propOf (case postAlert exampleEnv longTitleGeneric of
         Inr (AlertData a) \<Rightarrow> a | _ \<Rightarrow> JNull) ''title'' = JStr (replicate 201 CHR ''a'')"
    by simp
  have p: "propOf (case postAlert exampleEnv longTitleGeneric of
         Inr (AlertData a) \<Rightarrow> a | _ \<Rightarrow> JNull) ''severity'' = JStr ''info''"
    by code_simp
  have n: "\<not> nullish canonicalPayload"
    by (simp add: canonicalPayload_def)
  have f: "nativeFields canonicalPayload \<and> validateAlertPayload canonicalPayload = Inr Valid"
    by code_simp
  have o: "detectAndTransformWebhook exampleEnv canonicalPayload = Inr JNull"
    using oversize_title_generic [of canonicalPayload exampleEnv, THEN conjunct1, THEN mp, OF n] f
    by simp
  from o c [THEN conjunct2, THEN conjunct1] c [THEN conjunct2, THEN conjunct2, THEN conjunct1]
    v ti p
  show ?thesis by simp
qed

text \<open>
  C9 as stated fails at two payloads with an oversize title that match none of the shapes
  Grafana, Prometheus and Zabbix of the specification and have a message and one of status,
  level and priority. The first has a priority, which is 0: the generic branch does not take
  it and the handler rejects it. The second has a status, and a trigger and a problem that
  are not objects: the Zabbix branch takes it, and the result carries neither the payload's
  title nor its message.
\<close>

theorem oversize_title_falsy_priority_counterexample:
  "propOf longTitlePayload ''title'' = JStr (replicate 201 CHR ''a'')
   \<and> propOf longTitlePayload ''source'' = JStr ''svc''
   \<and> propOf longTitlePayload ''severity'' = JStr ''info''
   \<and> propOf longTitlePayload ''message'' = JStr ''disk full''
   \<and> propOf longTitlePayload ''priority'' = JNum 0
   \<and> specGenericShaped longTitlePayload
   \<and> \<not> specGrafanaShaped longTitlePayload \<and> \<not> specPrometheusShaped longTitlePayload
   \<and> \<not> specZabbixShaped longTitlePayload
   \<and> \<not> grafanaShape longTitlePayload \<and> \<not> prometheusShape longTitlePayload
   \<and> \<not> zabbixShape longTitlePayload
   \<and> detectAndTransformWebhook exampleEnv longTitlePayload = Inr JNull
   \<and> postAlert exampleEnv longTitlePayload =
       Inr (BadRequest ''Title too long (max 200 characters)'')
   \<and> propOf zabbixLookalikePayload ''title'' = JStr (replicate 201 CHR ''a'')
   \<and> propOf zabbixLookalikePayload ''source'' = JStr ''svc''
   \<and> propOf zabbixLookalikePayload ''severity'' = JStr ''info''
   \<and> propOf zabbixLookalikePayload ''message'' = JStr ''disk full''
   \<and> propOf zabbixLookalikePayload ''status'' = JStr ''firing''
   \<and> specGenericShaped zabbixLookalikePayload
   \<and> \<not> specGrafanaShaped zabbixLookalikePayload
   \<and> \<not> specPrometheusShaped zabbixLookalikePayload
   \<and> \<not> specZabbixShaped zabbixLookalikePayload
   \<and> detectAndTransformWebhook exampleEnv zabbixLookalikePayload =
       transformZabbixWebhook exampleEnv zabbixLookalikePayload
   \<and> detectAndTransformWebhook exampleEnv zabbixLookalikePayload \<noteq>
       transformGenericWebhook exampleEnv zabbixLookalikePayload
   \<and> propOf (case postAlert exampleEnv zabbixLookalikePayload of
         Inr (AlertData a) \<Rightarrow> a | _ \<Rightarrow> JNull) ''title'' = JStr ''Zabbix Alert''
   \<and> propOf (case postAlert exampleEnv zabbixLookalikePayload of
         Inr (AlertData a) \<Rightarrow> a | _ \<Rightarrow> JNull) ''message'' = JStr ''Zabbix trigger activated''"
  by code_simp

text \<open>
  An oversize title with a truthy priority and a timestamp that is an object with a property
  toString of its own: the generic branch takes the payload and the conversion of the
  timestamp raises, so the handler answers 500.
\<close>

lemma oversize_title_timestamp_object:
  "genericShape timestampObjectPayload
   \<and> detectAndTransformWebhook exampleEnv timestampObjectPayload = Inl TypeError
   \<and> postAlert exampleEnv timestampObjectPayload = Inl TypeError"
  by code_simp

text \<open>
  C3, what the code does. The mapper calls the method toString of its chosen input, and a
  parsed object with a property toString of its own has no such method: the call raises,
  whether the object comes as the raw severity or, with the raw severity absent, as the raw
  status, for every source kind. A Grafana payload whose label severity is such an object
  reaches the mapper unchecked, and the handler answers 500.
\<close>

theorem mapSeverity_raises_on_object:
  "mapSeverity (JObj [(''toString'', JStr ''x'')]) JNull src = Inl TypeError
   \<and> mapSeverity JNull (JObj [(''toString'', JStr ''x'')]) src = Inl TypeError
   \<and> grafanaShape severityObjectPayload
   \<and> detectAndTransformWebhook env severityObjectPayload = Inl TypeError
   \<and> postAlert env severityObjectPayload = Inl TypeError"
proof -
  have a: "mapSeverity (JObj [(''toString'', JStr ''x'')]) st k = Inl TypeError" for st k
    by (simp add: mapSeverity_def orElse_def toString_call_def)
  have b: "mapSeverity JNull (JObj [(''toString'', JStr ''x'')]) src = Inl TypeError"
    by (simp add: mapSeverity_def orElse_def toString_call_def)
  have g: "grafanaShape severityObjectPayload"
    by (simp add: grafanaShape_def severityObjectPayload_def)
  have n: "\<not> nativeFields severityObjectPayload"
    by (simp add: nativeFields_def severityObjectPayload_def)
  have t: "transformGrafanaWebhook env severityObjectPayload = Inl TypeError"
    by (simp add: transformGrafanaWebhook_def severityObjectPayload_def getProp_def optProp_def
        Let_def a)
  have d: "detectAndTransformWebhook env severityObjectPayload = Inl TypeError"
    using g n t by (simp add: detect_order severityObjectPayload_def)
  from a b g d show ?thesis
    by (simp add: postAlert_def)
qed

text \<open>
  C5, what the code does. A payload whose alerts field is an empty array, with a receiver,
  satisfies the Grafana condition; the transformation reads a property of the missing first
  element and raises, so the handler answers 500 although the payload also satisfies the
  generic condition. A first element that is null raises in the same way.
\<close>

theorem grafana_unguarded_first_alert:
  "grafanaShape emptyAlertsPayload \<and> genericShape emptyAlertsPayload
   \<and> detectAndTransformWebhook env emptyAlertsPayload = Inl TypeError
   \<and> postAlert env emptyAlertsPayload = Inl TypeError
   \<and> grafanaShape nullAlertPayload
   \<and> detectAndTransformWebhook env nullAlertPayload = Inl TypeError
   \<and> postAlert env nullAlertPayload = Inl TypeError"
proof -
  have g1: "grafanaShape emptyAlertsPayload"
    by (simp add: grafanaShape_def emptyAlertsPayload_def)
  have g2: "grafanaShape nullAlertPayload"
    by (simp add: grafanaShape_def nullAlertPayload_def)
  have g3: "genericShape emptyAlertsPayload"
    by (simp add: genericShape_def emptyAlertsPayload_def)
  have n1: "\<not> nativeFields emptyAlertsPayload"
    by (simp add: nativeFields_def emptyAlertsPayload_def)
  have n2: "\<not> nativeFields nullAlertPayload"
    by (simp add: nativeFields_def nullAlertPayload_def)
  have t1: "transformGrafanaWebhook env emptyAlertsPayload = Inl TypeError"
    by (simp add: transformGrafanaWebhook_def emptyAlertsPayload_def getProp_def)
  have t2: "transformGrafanaWebhook env nullAlertPayload = Inl TypeError"
    by (simp add: transformGrafanaWebhook_def nullAlertPayload_def getProp_def)
  have d1: "detectAndTransformWebhook env emptyAlertsPayload = Inl TypeError"
    using g1 n1 t1 by (simp add: detect_order emptyAlertsPayload_def)
  have d2: "detectAndTransformWebhook env nullAlertPayload = Inl TypeError"
    using g2 n2 t2 by (simp add: detect_order nullAlertPayload_def)
  from g1 g2 g3 d1 d2 show ?thesis
    by (simp add: postAlert_def)
qed

section \<open>Properties of the callback parser\<close>

lemma matchPrefixDigits_Some:
  "(matchPrefixDigits pre s = Some g) = (s = pre @ g \<and> g \<noteq> [] \<and> list_all isDigit g)"
proof -
  have "(take (length pre) s = pre \<and> drop (length pre) s = g) = (s = pre @ g)"
    by (metis append_eq_conv_conj)
  then show ?thesis
    by (auto simp: matchPrefixDigits_def Let_def)
qed

lemma matchPrefixDigits_None:
  "(matchPrefixDigits pre s = None) = (\<forall>g. \<not> (s = pre @ g \<and> g \<noteq> [] \<and> list_all isDigit g))"
  using matchPrefixDigits_Some [of pre s] by (cases "matchPrefixDigits pre s") auto

lemma matchPrefixDigits_append:
  "g \<noteq> [] \<Longrightarrow> list_all isDigit g \<Longrightarrow> matchPrefixDigits pre (pre @ g) = Some g"
  by (simp add: matchPrefixDigits_Some)

lemma ack_not_resolve:
  "matchPrefixDigits ''ack_'' (''resolve_'' @ g) = None"
  by (simp add: matchPrefixDigits_def)

text \<open>
  C10. The result is not null exactly when the whole string is ack_ or resolve_ followed by
  one or more decimal digits and nothing else. For such a string the action is acknowledge
  for ack_ and resolve for resolve_, and the id is what parseInt makes of the digit run:
  its decimal value, exactly so up to \<open>2 ^ 53\<close>.
\<close>

theorem extractAlertIdFromCallback_format:
  "(extractAlertIdFromCallback s \<noteq> None) =
      (\<exists>ds. ds \<noteq> [] \<and> list_all isDigit ds \<and> (s = ''ack_'' @ ds \<or> s = ''resolve_'' @ ds))
   \<and> (ds \<noteq> [] \<and> list_all isDigit ds \<longrightarrow>
        extractAlertIdFromCallback (''ack_'' @ ds) =
          Some (CallbackResult (parseInt ds) ''acknowledge'')
        \<and> extractAlertIdFromCallback (''resolve_'' @ ds) =
          Some (CallbackResult (parseInt ds) ''resolve''))
   \<and> (decimalValue ds \<le> 2 ^ 53 \<longrightarrow> parseInt ds = Exact (decimalValue ds))
   \<and> decimalValue (ds @ [d]) = 10 * decimalValue ds + digitValue d"
proof (intro conjI impI)
  show "(extractAlertIdFromCallback s \<noteq> None) =
      (\<exists>ds. ds \<noteq> [] \<and> list_all isDigit ds \<and> (s = ''ack_'' @ ds \<or> s = ''resolve_'' @ ds))"
  proof (cases "matchPrefixDigits ''ack_'' s")
    case (Some g)
    then show ?thesis
      using matchPrefixDigits_Some [of "''ack_''" s g]
      by (auto simp: extractAlertIdFromCallback_def)
  next
    case None
    note ack = this
    show ?thesis
    proof (cases "matchPrefixDigits ''resolve_'' s")
      case (Some g)
      then show ?thesis
        using ack matchPrefixDigits_Some [of "''resolve_''" s g]
        by (auto simp: extractAlertIdFromCallback_def)
    next
      case None
      then show ?thesis
        using ack matchPrefixDigits_None [of "''ack_''" s]
          matchPrefixDigits_None [of "''resolve_''" s]
        by (auto simp: extractAlertIdFromCallback_def)
    qed
  qed
next
  assume d: "ds \<noteq> [] \<and> list_all isDigit ds"
  then show "extractAlertIdFromCallback (''ack_'' @ ds) =
          Some (CallbackResult (parseInt ds) ''acknowledge'')"
    using matchPrefixDigits_append [of ds "''ack_''"]
    by (simp add: extractAlertIdFromCallback_def)
  from d show "extractAlertIdFromCallback (''resolve_'' @ ds) =
          Some (CallbackResult (parseInt ds) ''resolve'')"
    using matchPrefixDigits_append [of ds "''resolve_''"] ack_not_resolve [of ds]
    by (simp add: extractAlertIdFromCallback_def)
next
  assume "decimalValue ds \<le> 2 ^ 53"
  then show "parseInt ds = Exact (decimalValue ds)"
    by (simp add: parseInt_def Let_def)
next
  show "decimalValue (ds @ [d]) = 10 * decimalValue ds + digitValue d"
    by (simp add: decimalValue_def)
qed

theorem extractAlertIdFromCallback_format_witness:
  "extractAlertIdFromCallback ''ack_42'' = Some (CallbackResult (Exact 42) ''acknowledge'')
   \<and> extractAlertIdFromCallback ''resolve_007'' = Some (CallbackResult (Exact 7) ''resolve'')
   \<and> extractAlertIdFromCallback ''ack_-1'' = None
   \<and> extractAlertIdFromCallback ''xack_1'' = None
   \<and> extractAlertIdFromCallback ''ack_1x'' = None
   \<and> extractAlertIdFromCallback ''ack_'' = None"
proof -
  have d1: "''42'' \<noteq> [] \<and> list_all isDigit ''42''" by code_simp
  have d2: "''007'' \<noteq> [] \<and> list_all isDigit ''007''" by code_simp
  have v1: "decimalValue ''42'' = 42" by code_simp
  have v2: "decimalValue ''007'' = 7" by code_simp
  have p1: "parseInt ''42'' = Exact 42"
    using extractAlertIdFromCallback_format [of "[]" "''42''" "CHR ''0''"] v1 by simp
  have p2: "parseInt ''007'' = Exact 7"
    using extractAlertIdFromCallback_format [of "[]" "''007''" "CHR ''0''"] v2 by simp
  have a: "extractAlertIdFromCallback ''ack_42'' = Some (CallbackResult (Exact 42) ''acknowledge'')"
    using extractAlertIdFromCallback_format [of "[]" "''42''" "CHR ''0''"] d1 p1 by simp
  have b: "extractAlertIdFromCallback ''resolve_007'' = Some (CallbackResult (Exact 7) ''resolve'')"
    using extractAlertIdFromCallback_format [of "[]" "''007''" "CHR ''0''"] d2 p2 by simp
  have c: "extractAlertIdFromCallback ''ack_-1'' = None
      \<and> extractAlertIdFromCallback ''xack_1'' = None
      \<and> extractAlertIdFromCallback ''ack_1x'' = None
      \<and> extractAlertIdFromCallback ''ack_'' = None"
    by code_simp
  from a b c show ?thesis by simp
qed

section \<open>The severity of a stored alert\<close>

lemma mapSeverity_range:
  assumes "mapSeverity a b c = Inr sv"
  shows "sv \<in> set [''critical'', ''warning'', ''info'']"
proof (cases "toString_call (orElse (orElse a b) (JStr []))")
  case (Inl e)
  then show ?thesis
    using assms by (simp add: mapSeverity_def split: if_splits)
next
  case (Inr str)
  then have "mapSeverity a b c \<in> {Inr ''critical'', Inr ''warning'', Inr ''info''}"
    by (rule mapSeverity_of_string)
  then show ?thesis
    using assms by auto
qed

lemma transformGrafana_severity:
  assumes "transformGrafanaWebhook env p = Inr a"
  shows "\<exists>sv. sv \<in> set [''critical'', ''warning'', ''info''] \<and> propOf a ''severity'' = JStr sv"
proof -
  from assms obtain sv rest1 rest2 where
    "mapSeverity (optProp rest1 ''severity'') rest2 ''grafana'' = Inr sv"
    and "propOf a ''severity'' = JStr sv"
    unfolding transformGrafanaWebhook_def Let_def bnd_eq_Inr
    by auto
  then show ?thesis
    using mapSeverity_range by blast
qed

lemma transformPrometheus_severity:
  assumes "transformPrometheusWebhook env p = Inr a"
  shows "\<exists>sv. sv \<in> set [''critical'', ''warning'', ''info''] \<and> propOf a ''severity'' = JStr sv"
proof -
  from assms obtain sv rest1 rest2 where
    "mapSeverity (optProp rest1 ''severity'') rest2 ''prometheus'' = Inr sv"
    and "propOf a ''severity'' = JStr sv"
    unfolding transformPrometheusWebhook_def Let_def bnd_eq_Inr
    by auto
  then show ?thesis
    using mapSeverity_range by blast
qed

lemma transformZabbix_severity:
  assumes "transformZabbixWebhook env p = Inr a"
  shows "\<exists>sv. sv \<in> set [''critical'', ''warning'', ''info''] \<and> propOf a ''severity'' = JStr sv"
proof -
  from assms obtain sv x y where
    "mapSeverity x y ''zabbix'' = Inr sv"
    and "propOf a ''severity'' = JStr sv"
    unfolding transformZabbixWebhook_def Let_def bnd_eq_Inr
    by auto
  then show ?thesis
    using mapSeverity_range by blast
qed

lemma transformGeneric_severity:
  assumes "transformGenericWebhook env p = Inr a"
  shows "\<exists>sv. sv \<in> set [''critical'', ''warning'', ''info''] \<and> propOf a ''severity'' = JStr sv"
proof -
  from assms obtain sv x y where
    "mapSeverity x y ''generic'' = Inr sv"
    and "propOf a ''severity'' = JStr sv"
    unfolding transformGenericWebhook_def Let_def bnd_eq_Inr
    by auto
  then show ?thesis
    using mapSeverity_range by blast
qed

lemma detect_severity:
  assumes "detectAndTransformWebhook env payload = Inr a" and "a \<noteq> JNull"
  shows "\<exists>sv. sv \<in> set [''critical'', ''warning'', ''info''] \<and> propOf a ''severity'' = JStr sv"
proof -
  have nn: "\<not> nullish payload"
    using assms(1) by (auto simp: detectAndTransformWebhook_def getProp_def split: if_splits)
  from assms show ?thesis
    unfolding detect_order [OF nn]
    using transformGrafana_severity transformPrometheus_severity transformZabbix_severity
      transformGeneric_severity
    by (auto split: if_splits)
qed

lemma validate_Valid_severity:
  assumes "validateAlertPayload payload = Inr Valid"
  shows "\<exists>sv. sv \<in> set [''critical'', ''warning'', ''info''] \<and> propOf payload ''severity'' = JStr sv"
proof -
  from assms have "includesStr validSeverities (propOf payload ''severity'')"
    unfolding validateAlertPayload_def bnd_eq_Inr
    by (auto split: option.splits if_splits)
  then show ?thesis
    by (cases "propOf payload ''severity''") (simp_all add: validSeverities_def)
qed

text \<open>
  Whatever the handler goes on to store, transformed or native, carries a severity that is
  critical, warning or info: no other severity reaches the repository from a webhook.
\<close>

theorem stored_severity_canonical:
  assumes "postAlert env body = Inr (AlertData a)"
  shows "\<exists>sv. sv \<in> set [''critical'', ''warning'', ''info''] \<and> propOf a ''severity'' = JStr sv"
proof -
  from assms obtain transformed where d: "detectAndTransformWebhook env body = Inr transformed"
    and r: "(if truthy transformed then
         bnd (logLine transformed) (\<lambda>line. Inr (AlertData transformed))
       else
         bnd (validateAlertPayload body) (\<lambda>validation.
         case validation of
           Invalid e \<Rightarrow> Inr (BadRequest e)
         | Valid \<Rightarrow>
             bnd (logLine body) (\<lambda>line.
             bnd (trim_call (propOf body ''title'')) (\<lambda>title.
             bnd (trim_call (propOf body ''source'')) (\<lambda>source.
             bnd (toLowerCase_call (propOf body ''severity'')) (\<lambda>severity.
             bnd (trim_call (propOf body ''message'')) (\<lambda>message.
             Inr (AlertData (JObj
               [(''title'', title),
                (''source'', source),
                (''severity'', severity),
                (''message'', message),
                (''timestamp'',
                   orElse (propOf body ''timestamp'') (JNum (dateNow env)))]))))))))) =
        Inr (AlertData a)"
    unfolding postAlert_def bnd_eq_Inr by blast
  show ?thesis
  proof (cases "truthy transformed")
    case True
    then have "transformed \<noteq> JNull" by auto
    moreover from True r have "a = transformed"
      by (auto simp: bnd_eq_Inr)
    ultimately show ?thesis
      using detect_severity [OF d] by simp
  next
    case False
    with r obtain validation where vv: "validateAlertPayload body = Inr validation"
      and k: "(case validation of
           Invalid e \<Rightarrow> Inr (BadRequest e)
         | Valid \<Rightarrow>
             bnd (logLine body) (\<lambda>line.
             bnd (trim_call (propOf body ''title'')) (\<lambda>title.
             bnd (trim_call (propOf body ''source'')) (\<lambda>source.
             bnd (toLowerCase_call (propOf body ''severity'')) (\<lambda>severity.
             bnd (trim_call (propOf body ''message'')) (\<lambda>message.
             Inr (AlertData (JObj
               [(''title'', title),
                (''source'', source),
                (''severity'', severity),
                (''message'', message),
                (''timestamp'',
                   orElse (propOf body ''timestamp'') (JNum (dateNow env)))])))))))) =
        Inr (AlertData a)"
      by (auto simp: bnd_eq_Inr)
    from k have val: "validation = Valid"
      by (cases validation) simp_all
    with vv have v: "validateAlertPayload body = Inr Valid"
      by simp
    then obtain sv where sv: "sv \<in> set [''critical'', ''warning'', ''info'']"
      and p: "propOf body ''severity'' = JStr sv"
      using validate_Valid_severity by blast
    from k val p have "propOf a ''severity'' = JStr (toLowerCase sv)"
      by (auto simp: bnd_eq_Inr)
    with sv canonical_lower [OF sv] show ?thesis
      by auto
  qed
qed

theorem stored_severity_canonical_witness:
  "propOf (case postAlert exampleEnv longTitleGeneric of
       Inr (AlertData a) \<Rightarrow> a | _ \<Rightarrow> JNull) ''severity'' = JStr ''info''"
proof -
  have e: "postAlert exampleEnv longTitleGeneric =
      Inr (AlertData (case postAlert exampleEnv longTitleGeneric of
        Inr (AlertData a) \<Rightarrow> a | _ \<Rightarrow> JNull))"
    by code_simp
  have p: "propOf (case postAlert exampleEnv longTitleGeneric of
       Inr (AlertData a) \<Rightarrow> a | _ \<Rightarrow> JNull) ''severity'' = JStr ''info''"
    by code_simp
  from stored_severity_canonical [OF e] p show ?thesis
    by simp
qed

end
